theory Spec2Isabelle
  imports Main
begin

section \<open>Lua values and the thread state of one VM\<close>

text \<open>
  The wrapper class \<open>kaguya::State\<close> of \<open>state.hpp\<close> drives a Lua VM through the Lua
  C interface. The VM is modelled by what the wrapper can observe of it: the evaluation
  stack (index 1 is the first element of the list, the top is the last element),
  the value of the global table and the few attributes library calls act on.
  A closure carries its upvalues (Lua 5.2 and later bind the global namespace of a chunk
  as upvalue 1) and its environment table (Lua 5.1).
\<close>

datatype lua_value =
    LNil
  | LBoolean bool
  | LNumber int
  | LString string
  | LTable nat
  | LClosure nat "lua_value list" lua_value

record lua_State =
  stack :: "lua_value list"
  l_gt :: lua_value
  loaded :: "string list"
  gcrunning :: bool
  functor_destructor :: bool

text \<open>
  The part of a VM that its threads share and the collector works on (\<open>G(L)\<close> in the
  library's sources): everything above but the evaluation stack.
\<close>

record global_State =
  g_gt :: lua_value
  g_loaded :: "string list"
  g_gcrunning :: bool
  g_functor_destructor :: bool

definition G :: "lua_State \<Rightarrow> global_State" where
  "G L =
     \<lparr>g_gt = l_gt L, g_loaded = loaded L, g_gcrunning = gcrunning L,
      g_functor_destructor = functor_destructor L\<rparr>"

definition set_G :: "global_State \<Rightarrow> lua_State \<Rightarrow> lua_State" where
  "set_G g L =
     L\<lparr>l_gt := g_gt g, loaded := g_loaded g, gcrunning := g_gcrunning g,
       functor_destructor := g_functor_destructor g\<rparr>"

text \<open>Panic functions and error functions are code pointers; they are named, not run.\<close>

datatype panic_fn = default_panic | lauxlib_panic | foreign_panic nat

datatype errorfunction = StdErrorOut | UserFunction nat

text \<open>
  The host process: the VMs by address (a \<open>lua_State*\<close> is an address, and the
  identity of the VM), the panic function and the closed flag of each VM (they belong to
  the VM's global state, which no script-level library call reaches), the table of
  \<open>ErrorHandler::instance()\<close>, the standard error stream, and the calls that user
  error functions have received (function, status, message).
\<close>

record world =
  vms :: "nat \<Rightarrow> lua_State"
  panics :: "nat \<Rightarrow> panic_fn option"
  closed :: "nat set"
  handlers :: "nat \<Rightarrow> errorfunction option"
  cerr :: string
  delivered :: "(nat \<times> int \<times> string) list"

definition on_vm :: "nat \<Rightarrow> (lua_State \<Rightarrow> lua_State) \<Rightarrow> world \<Rightarrow> world" where
  "on_vm p f w = w\<lparr>vms := (vms w)(p := f (vms w p))\<rparr>"

definition set_vm :: "nat \<Rightarrow> lua_State \<Rightarrow> world \<Rightarrow> world" where
  "set_vm p L w = w\<lparr>vms := (vms w)(p := L)\<rparr>"

section \<open>The Lua C interface the wrapper calls\<close>

subsection \<open>Constants of lua.h\<close>

definition LUA_MULTRET :: int where "LUA_MULTRET = -1"
definition LUA_GCSTOP :: int where "LUA_GCSTOP = 0"
definition LUA_GCRESTART :: int where "LUA_GCRESTART = 1"
definition LUA_GCCOLLECT :: int where "LUA_GCCOLLECT = 2"
definition LUA_GCCOUNT :: int where "LUA_GCCOUNT = 3"
definition LUA_GCSTEP :: int where "LUA_GCSTEP = 5"
definition LUA_GCSETPAUSE :: int where "LUA_GCSETPAUSE = 6"
definition LUA_GCSETSTEPMUL :: int where "LUA_GCSETSTEPMUL = 7"
definition LUA_GCISRUNNING :: int where "LUA_GCISRUNNING = 9"

subsection \<open>Stack primitives\<close>

definition lua_gettop :: "lua_State \<Rightarrow> int" where
  "lua_gettop L = int (length (stack L))"

text \<open>
  \<open>lua_settop\<close> accepts any index: a non-negative one becomes the new top (new slots are
  nil), a negative one counts from the current top. An index below the stack base is
  outside the interface's contract; the model empties the stack there.
\<close>

definition lua_settop :: "int \<Rightarrow> lua_State \<Rightarrow> lua_State" where
  "lua_settop idx L =
     (let n = (if 0 \<le> idx then nat idx else nat (lua_gettop L + idx + 1))
      in L\<lparr>stack := take n (stack L) @ replicate (n - length (stack L)) LNil\<rparr>)"

definition lua_pop :: "int \<Rightarrow> lua_State \<Rightarrow> lua_State" where
  "lua_pop n L = lua_settop (- n - 1) L"

definition lua_push :: "lua_value \<Rightarrow> lua_State \<Rightarrow> lua_State" where
  "lua_push v L = L\<lparr>stack := stack L @ [v]\<rparr>"

definition index2pos :: "int \<Rightarrow> lua_State \<Rightarrow> nat option" where
  "index2pos idx L =
     (let a = (if 0 < idx then idx else lua_gettop L + idx + 1)
      in if 1 \<le> a \<and> a \<le> lua_gettop L then Some (nat a - 1) else None)"

definition lua_tostring_top :: "lua_State \<Rightarrow> string" where
  "lua_tostring_top L =
     (case rev (stack L) of
        LString s # _ \<Rightarrow> s
      | _ \<Rightarrow> [])"

text \<open>
  \<open>lua_setupvalue(L, funcindex, n)\<close> assigns the value on the top to upvalue \<open>n\<close> of the
  closure at \<open>funcindex\<close> and pops it; when there is no such upvalue it pops nothing.
  \<open>lua_setfenv(L, index)\<close> (Lua 5.1) always pops the table and makes it the environment
  when the value at \<open>index\<close> is a function.
\<close>

definition lua_setupvalue :: "int \<Rightarrow> int \<Rightarrow> lua_State \<Rightarrow> lua_State" where
  "lua_setupvalue funcindex n L =
     (case index2pos funcindex L of
        None \<Rightarrow> L
      | Some i \<Rightarrow>
          (case stack L ! i of
             LClosure c ups env \<Rightarrow>
               if 1 \<le> n \<and> n \<le> int (length ups)
               then L\<lparr>stack := butlast ((stack L)[i := LClosure c (ups[nat n - 1 := last (stack L)]) env])\<rparr>
               else L
           | _ \<Rightarrow> L))"

definition lua_setfenv :: "int \<Rightarrow> lua_State \<Rightarrow> lua_State" where
  "lua_setfenv idx L =
     (case index2pos idx L of
        None \<Rightarrow> lua_pop 1 L
      | Some i \<Rightarrow>
          (case stack L ! i of
             LClosure c ups env \<Rightarrow>
               L\<lparr>stack := butlast ((stack L)[i := LClosure c ups (last (stack L))])\<rparr>
           | _ \<Rightarrow> lua_pop 1 L))"

definition lua_atpanic :: "nat \<Rightarrow> panic_fn \<Rightarrow> world \<Rightarrow> world" where
  "lua_atpanic p f w = w\<lparr>panics := (panics w)(p := Some f)\<rparr>"

definition lua_close :: "nat \<Rightarrow> world \<Rightarrow> world" where
  "lua_close p w = w\<lparr>closed := insert p (closed w)\<rparr>"

subsection \<open>The library the wrapper is built against\<close>

text \<open>
  What the compiler, the interpreter, the library loaders and the collector do depends
  on the Lua library and on the scripts, not on \<open>state.hpp\<close>; they are parameters of the
  model, with the signatures of the C interface. A status of 0 is success. The
  compiler and the protected call report every failure by their status. The two loaders
  of libraries run registrars unprotected (\<open>luaL_requiref\<close> calls the registrar with
  \<open>lua_call\<close>), so an error in a registrar is raised through them: a long jump out of
  the caller, which is the \<open>Inl\<close> branch (the message and the VM as the error left
  it). A registrar is a C function on the VM that returns or raises.
  \<open>lua_gc\<close> has the stack effect [-0, +0] in the reference manual of every version:
  it works on the global state and never on the evaluation stack of the thread it is
  given, which is the type of the parameter.
  \<open>LUA_VERSION_NUM\<close> is the constant the preprocessor conditions of \<open>state.hpp\<close>
  test.
\<close>

type_synonym lua_CFunction = "lua_State \<Rightarrow> (string \<times> lua_State) + lua_State"

record lua_api =
  LUA_VERSION_NUM :: int
  luaL_loadstring :: "string \<Rightarrow> lua_State \<Rightarrow> int \<times> lua_State"
  luaL_loadfile :: "string \<Rightarrow> lua_State \<Rightarrow> int \<times> lua_State"
  lua_pcall_wrap :: "int \<Rightarrow> int \<Rightarrow> lua_State \<Rightarrow> int \<times> lua_State"
  luaL_openlibs :: "lua_State \<Rightarrow> (string \<times> lua_State) + lua_State"
  luaL_requiref :: "string \<Rightarrow> lua_CFunction \<Rightarrow> bool \<Rightarrow> lua_State \<Rightarrow> (string \<times> lua_State) + lua_State"
  lua_gc :: "int \<Rightarrow> int \<Rightarrow> global_State \<Rightarrow> int \<times> global_State"

section \<open>Collaborators of \<open>state.hpp\<close>\<close>

subsection \<open>\<open>util::ScopedSavedStack\<close>\<close>

text \<open>
  Modelled from the spec: \<open>util::ScopedSavedStack\<close> (\<open>kaguya/utility.hpp\<close>, not among
  the sources). The spec's StackGuard: a scoped acquisition of the VM's stack-top
  position, restored on every exit path. Construction records \<open>lua_gettop\<close>;
  destruction is \<open>lua_settop\<close> to the recorded top.
\<close>

record ScopedSavedStack =
  saved_state :: nat
  saved_top_index :: int

definition ScopedSavedStack_enter :: "nat \<Rightarrow> world \<Rightarrow> ScopedSavedStack" where
  "ScopedSavedStack_enter p w = \<lparr>saved_state = p, saved_top_index = lua_gettop (vms w p)\<rparr>"

definition ScopedSavedStack_leave :: "ScopedSavedStack \<Rightarrow> world \<Rightarrow> world" where
  "ScopedSavedStack_leave save w = on_vm (saved_state save) (lua_settop (saved_top_index save)) w"

subsection \<open>\<open>ErrorHandler\<close>\<close>

text \<open>
  The default error function of \<open>state.hpp\<close>: \<open>std::cerr << message << std::endl\<close>.
  The status is not printed.
\<close>

definition stderror_out :: "int \<Rightarrow> string \<Rightarrow> string \<Rightarrow> string" where
  "stderror_out status message out = out @ message @ [CHR 0x0A]"

text \<open>
  Calling a \<open>std::function<void(int, const char*)>\<close>: the default one writes to the
  error stream; what a user function does is its own business, the model records that
  it was called and with what.
\<close>

definition call_errorfunction :: "errorfunction \<Rightarrow> int \<Rightarrow> string \<Rightarrow> world \<Rightarrow> world" where
  "call_errorfunction f status message w =
     (case f of
        StdErrorOut \<Rightarrow> w\<lparr>cerr := stderror_out status message (cerr w)\<rparr>
      | UserFunction k \<Rightarrow> w\<lparr>delivered := delivered w @ [(k, status, message)]\<rparr>)"

text \<open>
  Modelled from the spec: \<open>ErrorHandler\<close> (\<open>kaguya/error_handler.hpp\<close>, not among the
  sources). The spec's ErrorRouter: one handler per VM identity at most;
  \<open>registerHandler\<close> installs or replaces; \<open>handle\<close> reads the message on the top of
  the VM's stack, calls the registered handler with the status and the message, then
  pops the message.
\<close>

definition getHandler :: "nat \<Rightarrow> world \<Rightarrow> errorfunction option" where
  "getHandler p w = handlers w p"

definition registerHandler :: "nat \<Rightarrow> errorfunction \<Rightarrow> world \<Rightarrow> world" where
  "registerHandler p f w = w\<lparr>handlers := (handlers w)(p \<mapsto> f)\<rparr>"

definition ErrorHandler_handle :: "int \<Rightarrow> nat \<Rightarrow> world \<Rightarrow> world" where
  "ErrorHandler_handle status p w =
     (let message = lua_tostring_top (vms w p);
          w1 = (case getHandler p w of
                  None \<Rightarrow> w
                | Some f \<Rightarrow> call_errorfunction f status message w)
      in on_vm p (lua_pop 1) w1)"

subsection \<open>\<open>LuaTable\<close>, \<open>GlobalTable\<close>, \<open>TableKeyReference\<close>, functor destructors\<close>

text \<open>
  Modelled from the spec: \<open>LuaTable\<close> (\<open>kaguya/lua_ref_table.hpp\<close>, not among the
  sources). The spec's Environment: an optional table value; the default-constructed
  reference is the nil reference, and \<open>push\<close> puts the table it refers to on the stack.
\<close>

datatype LuaTable = NilRef | TableRef nat

definition isNilref :: "LuaTable \<Rightarrow> bool" where
  "isNilref env = (case env of NilRef \<Rightarrow> True | TableRef t \<Rightarrow> False)"

definition LuaTable_push :: "LuaTable \<Rightarrow> lua_State \<Rightarrow> lua_State" where
  "LuaTable_push env L =
     (case env of
        NilRef \<Rightarrow> lua_push LNil L
      | TableRef t \<Rightarrow> lua_push (LTable t) L)"

text \<open>
  Modelled from the spec: \<open>LuaFunction::loadstring\<close> and \<open>LuaFunction::loadfile\<close>
  (\<open>kaguya/lua_ref_function.hpp\<close>, not among the sources). The spec's compile step
  and ScriptUnit: the VM's compiler is run on the text or the file under a stack guard;
  on failure \<open>ErrorRouter.handle\<close> is called with the compiler's status and the unit
  returned is invalid (the nil reference); on success the unit is a reference to the
  compiled function. The overloads on \<open>std::string\<close> are taken to compile the C string.
\<close>

datatype LuaFunction = NilFunction | FunctionRef lua_value

definition compiled_unit :: "lua_State \<Rightarrow> LuaFunction" where
  "compiled_unit L =
     (case rev (stack L) of
        [] \<Rightarrow> NilFunction
      | v # _ \<Rightarrow> FunctionRef v)"

definition LuaFunction_loadstring :: "lua_api \<Rightarrow> nat \<Rightarrow> string \<Rightarrow> world \<Rightarrow> LuaFunction \<times> world" where
  "LuaFunction_loadstring api p luacode w =
     (let save = ScopedSavedStack_enter p w;
          (status, L1) = luaL_loadstring api luacode (vms w p)
      in if status \<noteq> 0
         then (NilFunction, ScopedSavedStack_leave save (ErrorHandler_handle status p (set_vm p L1 w)))
         else (compiled_unit L1, ScopedSavedStack_leave save (set_vm p L1 w)))"

definition LuaFunction_loadfile :: "lua_api \<Rightarrow> nat \<Rightarrow> string \<Rightarrow> world \<Rightarrow> LuaFunction \<times> world" where
  "LuaFunction_loadfile api p path w =
     (let save = ScopedSavedStack_enter p w;
          (status, L1) = luaL_loadfile api path (vms w p)
      in if status \<noteq> 0
         then (NilFunction, ScopedSavedStack_leave save (ErrorHandler_handle status p (set_vm p L1 w)))
         else (compiled_unit L1, ScopedSavedStack_leave save (set_vm p L1 w)))"

text \<open>
  Modelled from the spec: \<open>lua_type_traits<GlobalTable>::push\<close> and the constructor of
  \<open>TableKeyReference\<close> (\<open>kaguya/lua_ref_table.hpp\<close>, not among the sources). The
  spec's global-namespace accessor: the global table is pushed, and the reference
  remembers the table's stack slot plus the key; nothing is read, written or checked
  when it is made.
\<close>

definition push_GlobalTable :: "lua_State \<Rightarrow> lua_State" where
  "push_GlobalTable L = lua_push (l_gt L) L"

record TableKeyReference =
  ref_state :: nat
  table_index :: int
  key :: string
  stack_top :: int

text \<open>
  Modelled from the spec: \<open>nativefunction::reg_functor_destructor\<close> (not among the
  sources). The spec: destructor forwarding is registered with the VM.
\<close>

definition reg_functor_destructor :: "lua_State \<Rightarrow> lua_State" where
  "reg_functor_destructor L = L\<lparr>functor_destructor := True\<rparr>"

section \<open>The class \<open>State\<close>\<close>

text \<open>
  The members \<open>allocator_holder_\<close> (the shared allocator object, or empty),
  \<open>state_\<close> and \<open>created_\<close>; a name cannot end in an underscore here.
\<close>

record State =
  allocator_holder :: "nat option"
  state_ptr :: nat
  created :: bool

type_synonym LoadLib = "string \<times> lua_CFunction"

text \<open>
  A Lua error raised inside an operation leaves it by a long jump, to the VM's panic
  function (after which the process aborts) or to a protected call further out: the
  operation does not return. That outcome is \<open>Inl\<close>, with the message and the process
  at the point of the error; no guard has run.
\<close>

type_synonym 'a raising = "(string \<times> world) + 'a"

definition setErrorHandler :: "State \<Rightarrow> errorfunction \<Rightarrow> world \<Rightarrow> world" where
  "setErrorHandler S errorfunction w =
     (let save = ScopedSavedStack_enter (state_ptr S) w;
          w1 = registerHandler (state_ptr S) errorfunction w
      in ScopedSavedStack_leave save w1)"

definition init :: "State \<Rightarrow> world \<Rightarrow> world" where
  "init S w =
     (let w1 = (if getHandler (state_ptr S) w = None
                then setErrorHandler S StdErrorOut w
                else w)
      in on_vm (state_ptr S) reg_functor_destructor w1)"

text \<open>\<open>openlibs()\<close>: all standard libraries.\<close>

definition openlibs_std :: "lua_api \<Rightarrow> State \<Rightarrow> world \<Rightarrow> world raising" where
  "openlibs_std api S w =
     (let save = ScopedSavedStack_enter (state_ptr S) w
      in case luaL_openlibs api (vms w (state_ptr S)) of
           Inl (msg, L) \<Rightarrow> Inl (msg, set_vm (state_ptr S) L w)
         | Inr L \<Rightarrow> Inr (ScopedSavedStack_leave save (set_vm (state_ptr S) L w)))"

definition openlib :: "lua_api \<Rightarrow> LoadLib \<Rightarrow> State \<Rightarrow> world \<Rightarrow> world raising" where
  "openlib api lib S w =
     (let save = ScopedSavedStack_enter (state_ptr S) w
      in case luaL_requiref api (fst lib) (snd lib) True (vms w (state_ptr S)) of
           Inl (msg, L) \<Rightarrow> Inl (msg, set_vm (state_ptr S) L w)
         | Inr L \<Rightarrow> Inr (ScopedSavedStack_leave save (set_vm (state_ptr S) L w)))"

text \<open>\<open>openlibs(const LoadLibs&)\<close>: the loop over the vector, front to back.\<close>

fun openlibs :: "lua_api \<Rightarrow> LoadLib list \<Rightarrow> State \<Rightarrow> world \<Rightarrow> world raising" where
  "openlibs api [] S w = Inr w"
| "openlibs api (lib # libs) S w =
     (case openlib api lib S w of
        Inl e \<Rightarrow> Inl e
      | Inr w1 \<Rightarrow> openlibs api libs S w1)"

text \<open>
  \<open>loadfile\<close> and \<open>loadstring\<close>, on a C string and on a \<open>std::string\<close>: each hands
  the VM and its argument to \<open>LuaFunction\<close>. The C string of a \<open>std::string\<close>,
  \<open>c_str()\<close>, ends at its first NUL.
\<close>

definition c_str :: "string \<Rightarrow> string" where
  "c_str s = takeWhile (\<lambda>c. c \<noteq> CHR 0x00) s"

definition loadfile :: "lua_api \<Rightarrow> string \<Rightarrow> State \<Rightarrow> world \<Rightarrow> LuaFunction \<times> world" where
  "loadfile api path S w = LuaFunction_loadfile api (state_ptr S) path w"

definition loadfile_string :: "lua_api \<Rightarrow> string \<Rightarrow> State \<Rightarrow> world \<Rightarrow> LuaFunction \<times> world" where
  "loadfile_string api path S w = LuaFunction_loadfile api (state_ptr S) (c_str path) w"

definition loadstring :: "lua_api \<Rightarrow> string \<Rightarrow> State \<Rightarrow> world \<Rightarrow> LuaFunction \<times> world" where
  "loadstring api str S w = LuaFunction_loadstring api (state_ptr S) str w"

definition loadstring_string :: "lua_api \<Rightarrow> string \<Rightarrow> State \<Rightarrow> world \<Rightarrow> LuaFunction \<times> world" where
  "loadstring_string api str S w = LuaFunction_loadstring api (state_ptr S) (c_str str) w"

text \<open>
  The block \<open>if (!env.isNilref()) { env.push(); ... }\<close> that \<open>dofile\<close> and \<open>dostring\<close>
  share word for word (the source marks it \<open>register _ENV\<close>).
\<close>

definition register_ENV :: "lua_api \<Rightarrow> LuaTable \<Rightarrow> lua_State \<Rightarrow> lua_State" where
  "register_ENV api env L =
     (if \<not> isNilref env
      then (let L1 = LuaTable_push env L
            in if 502 \<le> LUA_VERSION_NUM api
               then lua_setupvalue (-2) 1 L1
               else lua_setfenv (-2) L1)
      else L)"

definition dofile :: "lua_api \<Rightarrow> string \<Rightarrow> LuaTable \<Rightarrow> State \<Rightarrow> world \<Rightarrow> bool \<times> world" where
  "dofile api file env S w =
     (let save = ScopedSavedStack_enter (state_ptr S) w;
          (status, L1) = luaL_loadfile api file (vms w (state_ptr S))
      in if status \<noteq> 0
         then (False, ScopedSavedStack_leave save
                 (ErrorHandler_handle status (state_ptr S) (set_vm (state_ptr S) L1 w)))
         else (let L2 = register_ENV api env L1;
                   (status2, L3) = lua_pcall_wrap api 0 LUA_MULTRET L2
               in if status2 \<noteq> 0
                  then (False, ScopedSavedStack_leave save
                          (ErrorHandler_handle status2 (state_ptr S) (set_vm (state_ptr S) L3 w)))
                  else (True, ScopedSavedStack_leave save (set_vm (state_ptr S) L3 w))))"

definition dostring :: "lua_api \<Rightarrow> string \<Rightarrow> LuaTable \<Rightarrow> State \<Rightarrow> world \<Rightarrow> bool \<times> world" where
  "dostring api str env S w =
     (let save = ScopedSavedStack_enter (state_ptr S) w;
          (status, L1) = luaL_loadstring api str (vms w (state_ptr S))
      in if status \<noteq> 0
         then (False, ScopedSavedStack_leave save
                 (ErrorHandler_handle status (state_ptr S) (set_vm (state_ptr S) L1 w)))
         else (let L2 = register_ENV api env L1;
                   (status2, L3) = lua_pcall_wrap api 0 LUA_MULTRET L2
               in if status2 \<noteq> 0
                  then (False, ScopedSavedStack_leave save
                          (ErrorHandler_handle status2 (state_ptr S) (set_vm (state_ptr S) L3 w)))
                  else (True, ScopedSavedStack_leave save (set_vm (state_ptr S) L3 w))))"

text \<open>
  The overloads of \<open>dofile\<close> and \<open>dostring\<close> on \<open>std::string\<close> pass \<open>c_str()\<close>.
  The call operators pass the default environment, \<open>LuaTable()\<close>.
\<close>

definition dofile_string :: "lua_api \<Rightarrow> string \<Rightarrow> LuaTable \<Rightarrow> State \<Rightarrow> world \<Rightarrow> bool \<times> world" where
  "dofile_string api file env S w = dofile api (c_str file) env S w"

definition dostring_string :: "lua_api \<Rightarrow> string \<Rightarrow> LuaTable \<Rightarrow> State \<Rightarrow> world \<Rightarrow> bool \<times> world" where
  "dostring_string api str env S w = dostring api (c_str str) env S w"

definition call_string :: "lua_api \<Rightarrow> string \<Rightarrow> State \<Rightarrow> world \<Rightarrow> bool \<times> world" where
  "call_string api str S w = dostring_string api str NilRef S w"

definition call_cstr :: "lua_api \<Rightarrow> string \<Rightarrow> State \<Rightarrow> world \<Rightarrow> bool \<times> world" where
  "call_cstr api str S w = dostring api str NilRef S w"

text \<open>\<open>operator[]\<close>: no guard; the entry top goes into the reference.\<close>

definition index_op :: "string \<Rightarrow> State \<Rightarrow> world \<Rightarrow> TableKeyReference \<times> world" where
  "index_op str S w =
     (let stack_top0 = lua_gettop (vms w (state_ptr S));
          w1 = on_vm (state_ptr S) push_GlobalTable w;
          table_index0 = stack_top0 + 1
      in (\<lparr>ref_state = state_ptr S, table_index = table_index0, key = str, stack_top = stack_top0\<rparr>, w1))"

subsection \<open>Construction and destruction\<close>

text \<open>
  \<open>luaL_newstate()\<close> and \<open>lua_newstate(f, ud)\<close> return the address of a new VM; the
  address \<open>p\<close> is the one the call returned (a null return, on exhausted memory, is not
  modelled: the constructors pass it on unchecked). The auxiliary library installs a
  panic function of its own in the VMs it makes, \<open>lua_newstate\<close> installs none.
\<close>

definition new_lua_State :: lua_State where
  "new_lua_State =
     \<lparr>stack = [], l_gt = LTable 0, loaded = [], gcrunning = True, functor_destructor = False\<rparr>"

definition luaL_newstate :: "nat \<Rightarrow> world \<Rightarrow> world" where
  "luaL_newstate p w =
     w\<lparr>vms := (vms w)(p := new_lua_State),
       panics := (panics w)(p := Some lauxlib_panic),
       closed := closed w - {p}\<rparr>"

definition lua_newstate :: "nat \<Rightarrow> world \<Rightarrow> world" where
  "lua_newstate p w =
     w\<lparr>vms := (vms w)(p := new_lua_State),
       panics := (panics w)(p := None),
       closed := closed w - {p}\<rparr>"

text \<open>\<open>State()\<close>.\<close>

definition State_new :: "lua_api \<Rightarrow> nat \<Rightarrow> world \<Rightarrow> (State \<times> world) raising" where
  "State_new api p w =
     (let S = \<lparr>allocator_holder = None, state_ptr = p, created = True\<rparr>;
          w1 = luaL_newstate p w;
          w2 = lua_atpanic p default_panic w1;
          w3 = init S w2
      in case openlibs_std api S w3 of
           Inl e \<Rightarrow> Inl e
         | Inr w4 \<Rightarrow> Inr (S, w4))"

text \<open>\<open>State(shared_ptr<Allocator>)\<close>; \<open>a\<close> names the allocator object.\<close>

definition State_new_alloc :: "lua_api \<Rightarrow> nat \<Rightarrow> nat \<Rightarrow> world \<Rightarrow> (State \<times> world) raising" where
  "State_new_alloc api a p w =
     (let S = \<lparr>allocator_holder = Some a, state_ptr = p, created = True\<rparr>;
          w1 = lua_newstate p w;
          w2 = lua_atpanic p default_panic w1;
          w3 = init S w2
      in case openlibs_std api S w3 of
           Inl e \<Rightarrow> Inl e
         | Inr w4 \<Rightarrow> Inr (S, w4))"

text \<open>\<open>State(const LoadLibs&)\<close>.\<close>

definition State_libs :: "lua_api \<Rightarrow> LoadLib list \<Rightarrow> nat \<Rightarrow> world \<Rightarrow> (State \<times> world) raising" where
  "State_libs api libs p w =
     (let S = \<lparr>allocator_holder = None, state_ptr = p, created = True\<rparr>;
          w1 = luaL_newstate p w;
          w2 = lua_atpanic p default_panic w1;
          w3 = init S w2
      in case openlibs api libs S w3 of
           Inl e \<Rightarrow> Inl e
         | Inr w4 \<Rightarrow> Inr (S, w4))"

text \<open>\<open>State(const LoadLibs&, shared_ptr<Allocator>)\<close>.\<close>

definition State_libs_alloc ::
  "lua_api \<Rightarrow> LoadLib list \<Rightarrow> nat \<Rightarrow> nat \<Rightarrow> world \<Rightarrow> (State \<times> world) raising" where
  "State_libs_alloc api libs a p w =
     (let S = \<lparr>allocator_holder = Some a, state_ptr = p, created = True\<rparr>;
          w1 = lua_newstate p w;
          w2 = lua_atpanic p default_panic w1;
          w3 = init S w2
      in case openlibs api libs S w3 of
           Inl e \<Rightarrow> Inl e
         | Inr w4 \<Rightarrow> Inr (S, w4))"

text \<open>\<open>State(lua_State* lua)\<close>: only \<open>init()\<close> in the body.\<close>

definition State_adopt :: "nat \<Rightarrow> world \<Rightarrow> State \<times> world" where
  "State_adopt lua w =
     (let S = \<lparr>allocator_holder = None, state_ptr = lua, created = False\<rparr>
      in (S, init S w))"

text \<open>\<open>~State()\<close>.\<close>

definition State_destroy :: "State \<Rightarrow> world \<Rightarrow> world" where
  "State_destroy S w = (if created S then lua_close (state_ptr S) w else w)"

subsection \<open>\<open>State::GCType\<close>\<close>

text \<open>The struct has one member, the VM's address.\<close>

record GCType =
  gc_state :: nat

definition gc :: "State \<Rightarrow> GCType" where
  "gc S = \<lparr>gc_state = state_ptr S\<rparr>"

text \<open>\<open>lua_gc(state_, what, data)\<close>: the library call on the VM's global state.\<close>

definition gc_call :: "lua_api \<Rightarrow> GCType \<Rightarrow> int \<Rightarrow> int \<Rightarrow> world \<Rightarrow> int \<times> world" where
  "gc_call api g what data w =
     (let L = vms w (gc_state g);
          (r, g1) = lua_gc api what data (G L)
      in (r, set_vm (gc_state g) (set_G g1 L) w))"

definition collect :: "lua_api \<Rightarrow> GCType \<Rightarrow> world \<Rightarrow> world" where
  "collect api g w = snd (gc_call api g LUA_GCCOLLECT 0 w)"

definition step :: "lua_api \<Rightarrow> GCType \<Rightarrow> world \<Rightarrow> bool \<times> world" where
  "step api g w = (let (r, w1) = gc_call api g LUA_GCSTEP 0 w in (r = 1, w1))"

definition step_size :: "lua_api \<Rightarrow> GCType \<Rightarrow> int \<Rightarrow> world \<Rightarrow> bool \<times> world" where
  "step_size api g sz w = (let (r, w1) = gc_call api g LUA_GCSTEP sz w in (r = 1, w1))"

definition enable :: "lua_api \<Rightarrow> GCType \<Rightarrow> world \<Rightarrow> world" where
  "enable api g w = snd (gc_call api g LUA_GCRESTART 0 w)"

definition disable :: "lua_api \<Rightarrow> GCType \<Rightarrow> world \<Rightarrow> world" where
  "disable api g w = snd (gc_call api g LUA_GCSTOP 0 w)"

definition restart :: "lua_api \<Rightarrow> GCType \<Rightarrow> world \<Rightarrow> world" where
  "restart api g w = enable api g w"

definition stop :: "lua_api \<Rightarrow> GCType \<Rightarrow> world \<Rightarrow> world" where
  "stop api g w = disable api g w"

definition count :: "lua_api \<Rightarrow> GCType \<Rightarrow> world \<Rightarrow> int \<times> world" where
  "count api g w = gc_call api g LUA_GCCOUNT 0 w"

definition steppause :: "lua_api \<Rightarrow> GCType \<Rightarrow> int \<Rightarrow> world \<Rightarrow> int \<times> world" where
  "steppause api g v w = gc_call api g LUA_GCSETPAUSE v w"

definition setstepmul :: "lua_api \<Rightarrow> GCType \<Rightarrow> int \<Rightarrow> world \<Rightarrow> int \<times> world" where
  "setstepmul api g v w = gc_call api g LUA_GCSETSTEPMUL v w"

text \<open>
  \<open>isenabled\<close> and \<open>isrunning\<close> stand between \<open>#if LUA_VERSION_NUM >= 502\<close> and
  \<open>#endif\<close>: a build against an older library has neither member, which is the value
  \<open>None\<close>.
\<close>

definition isenabled :: "lua_api \<Rightarrow> GCType \<Rightarrow> world \<Rightarrow> (bool \<times> world) option" where
  "isenabled api g w =
     (if 502 \<le> LUA_VERSION_NUM api
      then Some (let (r, w1) = gc_call api g LUA_GCISRUNNING 0 w in (r \<noteq> 0, w1))
      else None)"

definition isrunning :: "lua_api \<Rightarrow> GCType \<Rightarrow> world \<Rightarrow> (bool \<times> world) option" where
  "isrunning api g w = isenabled api g w"

definition garbageCollect :: "lua_api \<Rightarrow> State \<Rightarrow> world \<Rightarrow> world" where
  "garbageCollect api S w = collect api (gc S) w"

text \<open>\<open>useKBytes\<close>: the count, an \<open>int\<close>, converted to \<open>size_t\<close> (taken as 64 bits).\<close>

definition useKBytes :: "lua_api \<Rightarrow> State \<Rightarrow> world \<Rightarrow> nat \<times> world" where
  "useKBytes api S w = (let (r, w1) = count api (gc S) w in (nat (r mod 2 ^ 64), w1))"

section \<open>The allocation callback\<close>

text \<open>
  Pointers are addresses, 0 the null pointer; sizes are \<open>size_t\<close> values, which the
  callback only compares with 0. The heap \<open>'h\<close> and the C library's \<open>malloc\<close>,
  \<open>realloc\<close> and \<open>free\<close> are parameters; being C functions they return. The
  template takes any class with the three member functions it calls, and a member
  function of a class may throw: each returns (\<open>Inr\<close>) or throws (\<open>Inl\<close>). The user
  data pointer is null (\<open>None\<close>) or points to the allocator. The callback has no
  \<open>try\<close>: what a member throws leaves the callback.
\<close>

datatype cpp_exception = bad_alloc | other_exception nat

record 'h cstdlib =
  std_malloc :: "nat \<Rightarrow> 'h \<Rightarrow> nat \<times> 'h"
  std_realloc :: "nat \<Rightarrow> nat \<Rightarrow> 'h \<Rightarrow> nat \<times> 'h"
  std_free :: "nat \<Rightarrow> 'h \<Rightarrow> 'h"

record 'h Allocator =
  allocate :: "nat \<Rightarrow> 'h \<Rightarrow> cpp_exception + nat \<times> 'h"
  reallocate :: "nat \<Rightarrow> nat \<Rightarrow> 'h \<Rightarrow> cpp_exception + nat \<times> 'h"
  deallocate :: "nat \<Rightarrow> nat \<Rightarrow> 'h \<Rightarrow> cpp_exception + 'h"

definition AllocatorFunction ::
  "'h cstdlib \<Rightarrow> 'h Allocator option \<Rightarrow> nat \<Rightarrow> nat \<Rightarrow> nat \<Rightarrow> 'h \<Rightarrow> cpp_exception + nat \<times> 'h" where
  "AllocatorFunction std ud ptr osize nsize h =
     (case ud of
        None \<Rightarrow> Inr (std_realloc std ptr nsize h)
      | Some allocator \<Rightarrow>
          if nsize = 0
          then (case deallocate allocator ptr osize h of
                  Inl e \<Rightarrow> Inl e
                | Inr h1 \<Rightarrow> Inr (0, h1))
          else if ptr \<noteq> 0 then reallocate allocator ptr nsize h
          else allocate allocator nsize h)"

text \<open>\<open>DefaultAllocator\<close>: \<open>malloc\<close>, \<open>realloc\<close> and \<open>free\<close>, which do not throw.\<close>

definition DefaultAllocator :: "'h cstdlib \<Rightarrow> 'h Allocator" where
  "DefaultAllocator std =
     \<lparr>allocate = (\<lambda>n h. Inr (std_malloc std n h)),
      reallocate = (\<lambda>p n h. Inr (std_realloc std p n h)),
      deallocate = (\<lambda>p n h. Inr (std_free std p h))\<rparr>"

section \<open>A small library and process for the examples\<close>

text \<open>
  One instance of the parameters, used where a statement is run on a concrete input:
  two script texts compile (one runs to a result, one raises), every other text is a
  syntax error; three files exist, the third a precompiled chunk of a function without
  upvalues (a chunk compiled from source has one, its global namespace); the protected
  call runs a closure, and a call of anything else fails with the value replaced by the
  message; loading a library runs its registrar and records the name; the collector's
  switch is a flag.
\<close>

definition demo_loadstring :: "string \<Rightarrow> lua_State \<Rightarrow> int \<times> lua_State" where
  "demo_loadstring str L =
     (if str = ''return 1+1'' then (0, lua_push (LClosure 0 [l_gt L] (l_gt L)) L)
      else if str = ''error()'' then (0, lua_push (LClosure 1 [l_gt L] (l_gt L)) L)
      else (3, lua_push (LString ''syntax error'') L))"

definition demo_loadfile :: "string \<Rightarrow> lua_State \<Rightarrow> int \<times> lua_State" where
  "demo_loadfile file L =
     (if file = ''ok.lua'' then (0, lua_push (LClosure 0 [l_gt L] (l_gt L)) L)
      else if file = ''bad.lua'' then (0, lua_push (LClosure 1 [l_gt L] (l_gt L)) L)
      else if file = ''one.luac'' then (0, lua_push (LClosure 0 [] (l_gt L)) L)
      else (6, lua_push (LString ''cannot open'') L))"

definition demo_pcall :: "int \<Rightarrow> int \<Rightarrow> lua_State \<Rightarrow> int \<times> lua_State" where
  "demo_pcall nargs nresults L =
     (case rev (stack L) of
        LClosure c ups env # below \<Rightarrow>
          if c = 0 then (0, L\<lparr>stack := rev below @ [LNumber 2]\<rparr>)
          else (2, L\<lparr>stack := rev below @ [LString ''boom'']\<rparr>)
      | v # below \<Rightarrow> (2, L\<lparr>stack := rev below @ [LString ''attempt to call a table value'']\<rparr>)
      | [] \<Rightarrow> (2, lua_push (LString ''attempt to call a nil value'') L))"

definition demo_openlibs :: "lua_State \<Rightarrow> (string \<times> lua_State) + lua_State" where
  "demo_openlibs L = Inr (L\<lparr>loaded := loaded L @ [''_G'', ''string'']\<rparr>)"

definition demo_requiref ::
  "string \<Rightarrow> lua_CFunction \<Rightarrow> bool \<Rightarrow> lua_State \<Rightarrow> (string \<times> lua_State) + lua_State" where
  "demo_requiref modname openf glb L =
     (case openf L of
        Inl e \<Rightarrow> Inl e
      | Inr L1 \<Rightarrow> Inr (L1\<lparr>loaded := loaded L1 @ [modname]\<rparr>))"

definition demo_gc :: "int \<Rightarrow> int \<Rightarrow> global_State \<Rightarrow> int \<times> global_State" where
  "demo_gc what data g =
     (if what = LUA_GCSTOP then (0, g\<lparr>g_gcrunning := False\<rparr>)
      else if what = LUA_GCRESTART then (0, g\<lparr>g_gcrunning := True\<rparr>)
      else if what = LUA_GCISRUNNING then ((if g_gcrunning g then 1 else 0), g)
      else (0, g))"

definition demo_api :: "int \<Rightarrow> lua_api" where
  "demo_api ver =
     \<lparr>LUA_VERSION_NUM = ver,
      luaL_loadstring = demo_loadstring,
      luaL_loadfile = demo_loadfile,
      lua_pcall_wrap = demo_pcall,
      luaL_openlibs = demo_openlibs,
      luaL_requiref = demo_requiref,
      lua_gc = demo_gc\<rparr>"

definition good_registrar :: lua_CFunction where
  "good_registrar L = Inr (lua_push (LTable 1) L)"

definition bad_registrar :: lua_CFunction where
  "bad_registrar L = Inl (''boom'', L)"

definition world0 :: world where
  "world0 =
     \<lparr>vms = (\<lambda>p. new_lua_State),
      panics = (\<lambda>p. None),
      closed = {},
      handlers = (\<lambda>p. None),
      cerr = [],
      delivered = []\<rparr>"

text \<open>A handle on the VM at address 1, and a process where that VM's stack holds two values.\<close>

definition demo_State :: State where
  "demo_State = \<lparr>allocator_holder = None, state_ptr = 1, created = True\<rparr>"

definition world1 :: world where
  "world1 = set_vm 1 (new_lua_State\<lparr>stack := [LNumber 10, LNumber 20]\<rparr>) world0"

text \<open>The same process with a user error function, and with the default one, for VM 1.\<close>

definition world2 :: world where
  "world2 = registerHandler 1 (UserFunction 7) world1"

definition world3 :: world where
  "world3 = registerHandler 1 StdErrorOut world1"

text \<open>
  A heap for the examples: the live blocks as (address, size) pairs, 64 bytes in all.
  \<open>malloc\<close> and \<open>realloc\<close> return the null pointer when the request does not fit.
\<close>

definition demo_malloc :: "nat \<Rightarrow> (nat \<times> nat) list \<Rightarrow> nat \<times> (nat \<times> nat) list" where
  "demo_malloc n h =
     (if 64 < sum_list (map snd h) + n then (0, h)
      else (let p = Suc (foldr max (map fst h) 0) in (p, h @ [(p, n)])))"

definition demo_free :: "nat \<Rightarrow> (nat \<times> nat) list \<Rightarrow> (nat \<times> nat) list" where
  "demo_free p h = filter (\<lambda>b. fst b \<noteq> p) h"

definition demo_realloc :: "nat \<Rightarrow> nat \<Rightarrow> (nat \<times> nat) list \<Rightarrow> nat \<times> (nat \<times> nat) list" where
  "demo_realloc p n h =
     (if p = 0 then demo_malloc n h
      else if 64 < sum_list (map snd (demo_free p h)) + n then (0, h)
      else (p, map (\<lambda>b. if fst b = p then (p, n) else b) h))"

definition demo_std :: "(nat \<times> nat) list cstdlib" where
  "demo_std = \<lparr>std_malloc = demo_malloc, std_realloc = demo_realloc, std_free = demo_free\<rparr>"

text \<open>
  An allocator in the style of \<open>operator new\<close>: it throws where \<open>malloc\<close> returns the
  null pointer.
\<close>

definition NewAllocator :: "(nat \<times> nat) list Allocator" where
  "NewAllocator =
     \<lparr>allocate = (\<lambda>n h. case demo_malloc n h of (p, h1) \<Rightarrow> if p = 0 then Inl bad_alloc else Inr (p, h1)),
      reallocate = (\<lambda>q n h. case demo_realloc q n h of (p, h1) \<Rightarrow> if p = 0 then Inl bad_alloc else Inr (p, h1)),
      deallocate = (\<lambda>p n h. Inr (demo_free p h))\<rparr>"

text \<open>The depth of the evaluation stack of a handle's VM.\<close>

definition stack_depth :: "State \<Rightarrow> world \<Rightarrow> int" where
  "stack_depth S w = lua_gettop (vms w (state_ptr S))"

section \<open>The stack guard\<close>

lemma lua_gettop_settop: "lua_gettop (lua_settop (lua_gettop L0) L) = lua_gettop L0"
  by (simp add: lua_gettop_def lua_settop_def Let_def)

lemma guard_restores:
  "stack_depth S (ScopedSavedStack_leave (ScopedSavedStack_enter (state_ptr S) w) w1) = stack_depth S w"
  by (simp add: stack_depth_def ScopedSavedStack_leave_def ScopedSavedStack_enter_def
      on_vm_def lua_gettop_settop)

lemma depth_setErrorHandler: "stack_depth S (setErrorHandler S f w) = stack_depth S w"
  by (simp add: setErrorHandler_def Let_def guard_restores)

lemma depth_openlibs_std:
  "openlibs_std api S w = Inr w1 \<Longrightarrow> stack_depth S w1 = stack_depth S w"
  by (auto simp: openlibs_std_def Let_def guard_restores split: sum.splits)

lemma depth_openlib:
  "openlib api lib S w = Inr w1 \<Longrightarrow> stack_depth S w1 = stack_depth S w"
  by (auto simp: openlib_def Let_def guard_restores split: sum.splits)

lemma depth_openlibs:
  "openlibs api libs S w = Inr w1 \<Longrightarrow> stack_depth S w1 = stack_depth S w"
proof (induction libs arbitrary: w)
  case Nil
  then show ?case by simp
next
  case (Cons lib libs)
  from Cons.prems obtain w2 where
    first: "openlib api lib S w = Inr w2" and rest: "openlibs api libs S w2 = Inr w1"
    by (auto split: sum.splits)
  from Cons.IH [OF rest] depth_openlib [OF first] show ?case by simp
qed

lemma depth_dofile: "stack_depth S (snd (dofile api file env S w)) = stack_depth S w"
  by (simp add: dofile_def Let_def guard_restores split: prod.splits)

lemma depth_dostring: "stack_depth S (snd (dostring api str env S w)) = stack_depth S w"
  by (simp add: dostring_def Let_def guard_restores split: prod.splits)

lemma lua_gettop_set_G: "lua_gettop (set_G g L) = lua_gettop L"
  by (simp add: lua_gettop_def set_G_def)

lemma depth_gc_call:
  "stack_depth S (snd (gc_call api (gc S) what data w)) = stack_depth S w"
  by (simp add: stack_depth_def gc_call_def gc_def set_vm_def Let_def lua_gettop_set_G
      split: prod.splits)

lemma depth_isenabled:
  assumes "isenabled api (gc S) w = Some r"
  shows "stack_depth S (snd r) = stack_depth S w"
proof -
  from assms have "r = (fst (gc_call api (gc S) LUA_GCISRUNNING 0 w) \<noteq> 0,
      snd (gc_call api (gc S) LUA_GCISRUNNING 0 w))"
    by (auto simp: isenabled_def split: if_splits prod.splits)
  then show ?thesis using depth_gc_call [of S api LUA_GCISRUNNING 0 w] by simp
qed

lemma depth_LuaFunction_loadstring:
  "stack_depth S (snd (LuaFunction_loadstring api (state_ptr S) str w)) = stack_depth S w"
  by (simp add: LuaFunction_loadstring_def Let_def guard_restores split: prod.splits)

lemma depth_LuaFunction_loadfile:
  "stack_depth S (snd (LuaFunction_loadfile api (state_ptr S) path w)) = stack_depth S w"
  by (simp add: LuaFunction_loadfile_def Let_def guard_restores split: prod.splits)

lemma depth_index_op:
  "stack_depth S (snd (index_op str S w)) = stack_depth S w + 1"
  by (simp add: index_op_def Let_def stack_depth_def on_vm_def push_GlobalTable_def
      lua_push_def lua_gettop_def)

section \<open>Stack depth across the public operations\<close>

text \<open>
  C1, as amended. Every public operation of the VM handle that the claim names, but
  indexing, leaves the VM's evaluation stack at the depth it found when it returns:
  library loading (\<open>openlibs()\<close>, \<open>openlib\<close>, \<open>openlibs(libs)\<close>), script loading
  (\<open>loadfile\<close>, \<open>loadstring\<close>) and running (\<open>dofile\<close>, \<open>dostring\<close>, the call
  operators), each on a C string and on a \<open>std::string\<close> and on every path (success, a
  failed compilation, a failed run routed through the handler), the registration of an
  error handler, and the control of the collector. Indexing the global namespace,
  \<open>operator[]\<close>, does not: when it returns the global table lies on the stack, one
  above the entry depth; the entry depth and the table's slot are what the returned
  reference remembers.
\<close>

theorem guarded_operations_restore_depth:
  "stack_depth S (setErrorHandler S f w) = stack_depth S w
   \<and> (openlibs_std api S w = Inr w1 \<longrightarrow> stack_depth S w1 = stack_depth S w)
   \<and> (openlib api lib S w = Inr w2 \<longrightarrow> stack_depth S w2 = stack_depth S w)
   \<and> (openlibs api libs S w = Inr w3 \<longrightarrow> stack_depth S w3 = stack_depth S w)
   \<and> stack_depth S (snd (loadfile api path S w)) = stack_depth S w
   \<and> stack_depth S (snd (loadfile_string api path S w)) = stack_depth S w
   \<and> stack_depth S (snd (loadstring api str S w)) = stack_depth S w
   \<and> stack_depth S (snd (loadstring_string api str S w)) = stack_depth S w
   \<and> stack_depth S (snd (dofile api path env S w)) = stack_depth S w
   \<and> stack_depth S (snd (dofile_string api path env S w)) = stack_depth S w
   \<and> stack_depth S (snd (dostring api str env S w)) = stack_depth S w
   \<and> stack_depth S (snd (dostring_string api str env S w)) = stack_depth S w
   \<and> stack_depth S (snd (call_string api str S w)) = stack_depth S w
   \<and> stack_depth S (snd (call_cstr api str S w)) = stack_depth S w
   \<and> stack_depth S (collect api (gc S) w) = stack_depth S w
   \<and> stack_depth S (garbageCollect api S w) = stack_depth S w
   \<and> stack_depth S (snd (step api (gc S) w)) = stack_depth S w
   \<and> stack_depth S (snd (step_size api (gc S) sz w)) = stack_depth S w
   \<and> stack_depth S (enable api (gc S) w) = stack_depth S w
   \<and> stack_depth S (disable api (gc S) w) = stack_depth S w
   \<and> stack_depth S (restart api (gc S) w) = stack_depth S w
   \<and> stack_depth S (stop api (gc S) w) = stack_depth S w
   \<and> stack_depth S (snd (count api (gc S) w)) = stack_depth S w
   \<and> stack_depth S (snd (steppause api (gc S) v w)) = stack_depth S w
   \<and> stack_depth S (snd (setstepmul api (gc S) v w)) = stack_depth S w
   \<and> stack_depth S (snd (useKBytes api S w)) = stack_depth S w
   \<and> (isenabled api (gc S) w = Some r \<longrightarrow> stack_depth S (snd r) = stack_depth S w)
   \<and> (isrunning api (gc S) w = Some r \<longrightarrow> stack_depth S (snd r) = stack_depth S w)
   \<and> stack_depth S (snd (index_op k S w)) = stack_depth S w + 1
   \<and> stack_top (fst (index_op k S w)) = stack_depth S w
   \<and> table_index (fst (index_op k S w)) = stack_depth S w + 1"
proof -
  have guarded: "stack_depth S (setErrorHandler S f w) = stack_depth S w"
    "openlibs_std api S w = Inr w1 \<longrightarrow> stack_depth S w1 = stack_depth S w"
    "openlib api lib S w = Inr w2 \<longrightarrow> stack_depth S w2 = stack_depth S w"
    "openlibs api libs S w = Inr w3 \<longrightarrow> stack_depth S w3 = stack_depth S w"
    using depth_setErrorHandler depth_openlibs_std depth_openlib depth_openlibs by blast+
  have loading: "stack_depth S (snd (loadfile api path S w)) = stack_depth S w"
    "stack_depth S (snd (loadfile_string api path S w)) = stack_depth S w"
    "stack_depth S (snd (loadstring api str S w)) = stack_depth S w"
    "stack_depth S (snd (loadstring_string api str S w)) = stack_depth S w"
    by (simp_all add: loadfile_def loadfile_string_def loadstring_def loadstring_string_def
        depth_LuaFunction_loadfile depth_LuaFunction_loadstring)
  have scripts: "stack_depth S (snd (dofile api path env S w)) = stack_depth S w"
    "stack_depth S (snd (dofile_string api path env S w)) = stack_depth S w"
    "stack_depth S (snd (dostring api str env S w)) = stack_depth S w"
    "stack_depth S (snd (dostring_string api str env S w)) = stack_depth S w"
    "stack_depth S (snd (call_string api str S w)) = stack_depth S w"
    "stack_depth S (snd (call_cstr api str S w)) = stack_depth S w"
    by (simp_all add: dofile_string_def dostring_string_def call_string_def call_cstr_def
        depth_dofile depth_dostring)
  have collector: "stack_depth S (collect api (gc S) w) = stack_depth S w"
    "stack_depth S (garbageCollect api S w) = stack_depth S w"
    "stack_depth S (snd (step api (gc S) w)) = stack_depth S w"
    "stack_depth S (snd (step_size api (gc S) sz w)) = stack_depth S w"
    "stack_depth S (enable api (gc S) w) = stack_depth S w"
    "stack_depth S (disable api (gc S) w) = stack_depth S w"
    "stack_depth S (restart api (gc S) w) = stack_depth S w"
    "stack_depth S (stop api (gc S) w) = stack_depth S w"
    "stack_depth S (snd (count api (gc S) w)) = stack_depth S w"
    "stack_depth S (snd (steppause api (gc S) v w)) = stack_depth S w"
    "stack_depth S (snd (setstepmul api (gc S) v w)) = stack_depth S w"
    "stack_depth S (snd (useKBytes api S w)) = stack_depth S w"
    by (simp_all add: collect_def garbageCollect_def step_def step_size_def enable_def
        disable_def restart_def stop_def count_def steppause_def setstepmul_def useKBytes_def
        Let_def case_prod_unfold depth_gc_call)
  have query: "isenabled api (gc S) w = Some r \<longrightarrow> stack_depth S (snd r) = stack_depth S w"
    "isrunning api (gc S) w = Some r \<longrightarrow> stack_depth S (snd r) = stack_depth S w"
    using depth_isenabled [of api S w r] by (simp_all add: isrunning_def)
  have indexing: "stack_depth S (snd (index_op k S w)) = stack_depth S w + 1"
    "stack_top (fst (index_op k S w)) = stack_depth S w"
    "table_index (fst (index_op k S w)) = stack_depth S w + 1"
    by (simp_all add: depth_index_op) (simp_all add: index_op_def Let_def stack_depth_def)
  from guarded loading scripts collector query indexing show ?thesis by blast
qed

text \<open>
  C1 as stated fails at \<open>operator[]\<close>: on a stack of depth 2, indexing the handle by
  \<open>x\<close> returns with depth 3.
\<close>

theorem index_op_changes_depth:
  "stack_depth demo_State world1 = 2
   \<and> stack_depth demo_State (snd (index_op ''x'' demo_State world1)) = 3
   \<and> stack (vms (snd (index_op ''x'' demo_State world1)) 1) = [LNumber 10, LNumber 20, LTable 0]"
  by (simp add: index_op_def Let_def stack_depth_def on_vm_def push_GlobalTable_def lua_push_def
      lua_gettop_def demo_State_def world1_def world0_def set_vm_def new_lua_State_def)

text \<open>
  The amended statement at a concrete process, where the stack of VM 1 holds two values:
  the standard libraries, one library and a list of two load and return; a text that
  does not compile is loaded (an invalid unit, the handler called) and a text that
  compiles is loaded; a script that raises goes through the handler and returns false;
  the collector is stopped and asked. The depth is 2 before and after each, and 3 after
  \<open>operator[]\<close>.
\<close>

theorem guarded_operations_restore_depth_witness:
  "(\<exists>w1. openlibs_std (demo_api 503) demo_State world1 = Inr w1 \<and> stack_depth demo_State w1 = 2)
   \<and> (\<exists>w2. openlib (demo_api 503) (''m'', good_registrar) demo_State world1 = Inr w2
          \<and> stack_depth demo_State w2 = 2)
   \<and> (\<exists>w3. openlibs (demo_api 503) [(''m'', good_registrar), (''n'', good_registrar)] demo_State world1
            = Inr w3 \<and> stack_depth demo_State w3 = 2)
   \<and> fst (loadstring (demo_api 503) ''x y z'' demo_State world1) = NilFunction
   \<and> stack_depth demo_State (snd (loadstring (demo_api 503) ''x y z'' demo_State world1)) = 2
   \<and> fst (loadfile (demo_api 503) ''ok.lua'' demo_State world1)
       = FunctionRef (LClosure 0 [LTable 0] (LTable 0))
   \<and> stack_depth demo_State (snd (loadfile (demo_api 503) ''ok.lua'' demo_State world1)) = 2
   \<and> fst (dostring (demo_api 503) ''error()'' NilRef demo_State world1) = False
   \<and> stack_depth demo_State (snd (dostring (demo_api 503) ''error()'' NilRef demo_State world1)) = 2
   \<and> (\<exists>r. isenabled (demo_api 503) (gc demo_State) world1 = Some r \<and> stack_depth demo_State (snd r) = 2)
   \<and> (\<exists>r. isrunning (demo_api 503) (gc demo_State) world1 = Some r \<and> stack_depth demo_State (snd r) = 2)
   \<and> stack_depth demo_State (disable (demo_api 503) (gc demo_State) world1) = 2
   \<and> stack_depth demo_State (snd (index_op ''x'' demo_State world1)) = 3"
proof -
  note ev = demo_api_def demo_State_def world1_def world0_def set_vm_def new_lua_State_def
    demo_loadstring_def demo_loadfile_def demo_pcall_def lua_push_def
  have entry: "stack_depth demo_State world1 = 2"
    by (simp add: stack_depth_def lua_gettop_def ev)
  obtain w1 where h1: "openlibs_std (demo_api 503) demo_State world1 = Inr w1"
    by (simp add: openlibs_std_def Let_def demo_api_def demo_openlibs_def)
  obtain w2 where h2: "openlib (demo_api 503) (''m'', good_registrar) demo_State world1 = Inr w2"
    by (simp add: openlib_def Let_def demo_api_def demo_requiref_def good_registrar_def)
  obtain w3 where h3:
    "openlibs (demo_api 503) [(''m'', good_registrar), (''n'', good_registrar)] demo_State world1 = Inr w3"
    by (simp add: openlib_def Let_def demo_api_def demo_requiref_def good_registrar_def)
  obtain r where h4: "isenabled (demo_api 503) (gc demo_State) world1 = Some r"
    and h5: "isrunning (demo_api 503) (gc demo_State) world1 = Some r"
    by (simp add: isenabled_def isrunning_def demo_api_def)
  have units: "fst (loadstring (demo_api 503) ''x y z'' demo_State world1) = NilFunction"
    "fst (loadfile (demo_api 503) ''ok.lua'' demo_State world1)
       = FunctionRef (LClosure 0 [LTable 0] (LTable 0))"
    by (simp_all add: loadstring_def LuaFunction_loadstring_def loadfile_def
        LuaFunction_loadfile_def compiled_unit_def Let_def ev)
  have failed: "fst (dostring (demo_api 503) ''error()'' NilRef demo_State world1) = False"
    by (simp add: dostring_def Let_def register_ENV_def isNilref_def LUA_MULTRET_def ev
        split: prod.splits)
  from guarded_operations_restore_depth [where S = demo_State and w = world1
      and api = "demo_api 503" and ?w1.0 = w1 and ?w2.0 = w2 and ?w3.0 = w3 and r = r
      and lib = "(''m'', good_registrar)"
      and libs = "[(''m'', good_registrar), (''n'', good_registrar)]"
      and str = "''error()''" and env = NilRef and k = "''x''" and f = StdErrorOut
      and path = "''ok.lua''" and sz = 0 and v = 0]
    entry h1 h2 h3 h4 h5
  have A: "stack_depth demo_State w1 = 2 \<and> stack_depth demo_State w2 = 2
      \<and> stack_depth demo_State w3 = 2
      \<and> stack_depth demo_State (snd (loadfile (demo_api 503) ''ok.lua'' demo_State world1)) = 2
      \<and> stack_depth demo_State (snd (dostring (demo_api 503) ''error()'' NilRef demo_State world1)) = 2
      \<and> stack_depth demo_State (snd r) = 2
      \<and> stack_depth demo_State (disable (demo_api 503) (gc demo_State) world1) = 2
      \<and> stack_depth demo_State (snd (index_op ''x'' demo_State world1)) = 3"
    by simp
  from guarded_operations_restore_depth [where S = demo_State and w = world1
      and api = "demo_api 503" and ?w1.0 = w1 and ?w2.0 = w2 and ?w3.0 = w3 and r = r
      and lib = "(''m'', good_registrar)"
      and libs = "[(''m'', good_registrar), (''n'', good_registrar)]"
      and str = "''x y z''" and env = NilRef and k = "''x''" and f = StdErrorOut
      and path = "''ok.lua''" and sz = 0 and v = 0]
    entry
  have B: "stack_depth demo_State (snd (loadstring (demo_api 503) ''x y z'' demo_State world1)) = 2"
    by simp
  from A B h1 h2 h3 h4 h5 units failed show ?thesis by simp
qed

section \<open>Running a script: results and the error handler\<close>

lemma dostring_compile_failed:
  assumes "luaL_loadstring api str (vms w (state_ptr S)) = (st, L1)" and "st \<noteq> 0"
  shows "dostring api str env S w =
    (False, ScopedSavedStack_leave (ScopedSavedStack_enter (state_ptr S) w)
       (ErrorHandler_handle st (state_ptr S) (set_vm (state_ptr S) L1 w)))"
  using assms by (simp add: dostring_def Let_def)

lemma dostring_run_failed:
  assumes "luaL_loadstring api str (vms w (state_ptr S)) = (0, L1)"
    and "lua_pcall_wrap api 0 LUA_MULTRET (register_ENV api env L1) = (st2, L3)" and "st2 \<noteq> 0"
  shows "dostring api str env S w =
    (False, ScopedSavedStack_leave (ScopedSavedStack_enter (state_ptr S) w)
       (ErrorHandler_handle st2 (state_ptr S) (set_vm (state_ptr S) L3 w)))"
  using assms by (simp add: dostring_def Let_def)

lemma dostring_run_ok:
  assumes "luaL_loadstring api str (vms w (state_ptr S)) = (0, L1)"
    and "lua_pcall_wrap api 0 LUA_MULTRET (register_ENV api env L1) = (0, L3)"
  shows "dostring api str env S w =
    (True, ScopedSavedStack_leave (ScopedSavedStack_enter (state_ptr S) w)
       (set_vm (state_ptr S) L3 w))"
  using assms by (simp add: dostring_def Let_def)

lemma dofile_compile_failed:
  assumes "luaL_loadfile api path (vms w (state_ptr S)) = (st, L1)" and "st \<noteq> 0"
  shows "dofile api path env S w =
    (False, ScopedSavedStack_leave (ScopedSavedStack_enter (state_ptr S) w)
       (ErrorHandler_handle st (state_ptr S) (set_vm (state_ptr S) L1 w)))"
  using assms by (simp add: dofile_def Let_def)

lemma dofile_run_failed:
  assumes "luaL_loadfile api path (vms w (state_ptr S)) = (0, L1)"
    and "lua_pcall_wrap api 0 LUA_MULTRET (register_ENV api env L1) = (st2, L3)" and "st2 \<noteq> 0"
  shows "dofile api path env S w =
    (False, ScopedSavedStack_leave (ScopedSavedStack_enter (state_ptr S) w)
       (ErrorHandler_handle st2 (state_ptr S) (set_vm (state_ptr S) L3 w)))"
  using assms by (simp add: dofile_def Let_def)

lemma dofile_run_ok:
  assumes "luaL_loadfile api path (vms w (state_ptr S)) = (0, L1)"
    and "lua_pcall_wrap api 0 LUA_MULTRET (register_ENV api env L1) = (0, L3)"
  shows "dofile api path env S w =
    (True, ScopedSavedStack_leave (ScopedSavedStack_enter (state_ptr S) w)
       (set_vm (state_ptr S) L3 w))"
  using assms by (simp add: dofile_def Let_def)

lemma dostring_true_iff:
  "fst (dostring api str env S w) \<longleftrightarrow>
     fst (luaL_loadstring api str (vms w (state_ptr S))) = 0
     \<and> fst (lua_pcall_wrap api 0 LUA_MULTRET
              (register_ENV api env (snd (luaL_loadstring api str (vms w (state_ptr S)))))) = 0"
  by (simp add: dostring_def Let_def split: prod.splits)

lemma dofile_true_iff:
  "fst (dofile api path env S w) \<longleftrightarrow>
     fst (luaL_loadfile api path (vms w (state_ptr S))) = 0
     \<and> fst (lua_pcall_wrap api 0 LUA_MULTRET
              (register_ENV api env (snd (luaL_loadfile api path (vms w (state_ptr S)))))) = 0"
  by (simp add: dofile_def Let_def split: prod.splits)

text \<open>What the process sees of a call of \<open>ErrorHandler::handle\<close> inside a guard.\<close>

lemma handled_delivered:
  assumes "handlers w p = Some (UserFunction k)"
  shows "delivered (ScopedSavedStack_leave g (ErrorHandler_handle st p (set_vm p L w)))
    = delivered w @ [(k, st, lua_tostring_top L)]"
  using assms
  by (simp add: ScopedSavedStack_leave_def ErrorHandler_handle_def getHandler_def
      call_errorfunction_def on_vm_def set_vm_def Let_def)

lemma handled_cerr:
  assumes "handlers w p = Some StdErrorOut"
  shows "cerr (ScopedSavedStack_leave g (ErrorHandler_handle st p (set_vm p L w)))
    = cerr w @ lua_tostring_top L @ [CHR 0x0A]"
  using assms
  by (simp add: ScopedSavedStack_leave_def ErrorHandler_handle_def getHandler_def
      call_errorfunction_def stderror_out_def on_vm_def set_vm_def Let_def)

lemma unhandled_silent:
  "delivered (ScopedSavedStack_leave g (set_vm p L w)) = delivered w
   \<and> cerr (ScopedSavedStack_leave g (set_vm p L w)) = cerr w"
  by (simp add: ScopedSavedStack_leave_def on_vm_def set_vm_def)

lemma dostring_ok_silent:
  "fst (dostring api str env S w) \<Longrightarrow>
     delivered (snd (dostring api str env S w)) = delivered w
     \<and> cerr (snd (dostring api str env S w)) = cerr w"
  by (auto simp: dostring_def Let_def unhandled_silent split: prod.splits if_splits)

lemma dofile_ok_silent:
  "fst (dofile api path env S w) \<Longrightarrow>
     delivered (snd (dofile api path env S w)) = delivered w
     \<and> cerr (snd (dofile api path env S w)) = cerr w"
  by (auto simp: dofile_def Let_def unhandled_silent split: prod.splits if_splits)

lemma dostring_compile_failed_early:
  assumes "luaL_loadstring api str (vms w (state_ptr S)) = (st, L1)" and "st \<noteq> 0"
  shows "dostring (api\<lparr>lua_pcall_wrap := pc\<rparr>) str env2 S w = dostring api str env S w"
  using assms by (simp add: dostring_def Let_def)

lemma dofile_compile_failed_early:
  assumes "luaL_loadfile api path (vms w (state_ptr S)) = (st, L1)" and "st \<noteq> 0"
  shows "dofile (api\<lparr>lua_pcall_wrap := pc\<rparr>) path env2 S w = dofile api path env S w"
  using assms by (simp add: dofile_def Let_def)

text \<open>
  C2. \<open>dostring\<close> and \<open>dofile\<close> return true exactly when the compile step and the
  protected call both return status 0. A non-zero status of the compile step ends the
  operation there: the result is false, the process is the one \<open>ErrorHandler::handle\<close>
  leaves when called with that status on the VM as the compiler left it (then the guard
  restores the top), and neither the environment argument nor the protected call has any
  part in it. A non-zero status of the protected call gives false and the process the
  handler leaves when called with that status. What the handler receives is observable:
  a user function gets the status and the message on the stack top, the default writes
  the message and a newline to the error stream; on success nothing is delivered.
\<close>

theorem dostring_dofile_result:
  "(fst (dostring api str env S w) \<longleftrightarrow>
      fst (luaL_loadstring api str (vms w (state_ptr S))) = 0
      \<and> fst (lua_pcall_wrap api 0 LUA_MULTRET
               (register_ENV api env (snd (luaL_loadstring api str (vms w (state_ptr S)))))) = 0)
   \<and> (luaL_loadstring api str (vms w (state_ptr S)) = (st, L1) \<and> st \<noteq> 0 \<longrightarrow>
        dostring api str env S w =
          (False, ScopedSavedStack_leave (ScopedSavedStack_enter (state_ptr S) w)
             (ErrorHandler_handle st (state_ptr S) (set_vm (state_ptr S) L1 w)))
        \<and> dostring (api\<lparr>lua_pcall_wrap := pc\<rparr>) str env2 S w = dostring api str env S w
        \<and> (handlers w (state_ptr S) = Some (UserFunction k) \<longrightarrow>
             delivered (snd (dostring api str env S w)) = delivered w @ [(k, st, lua_tostring_top L1)])
        \<and> (handlers w (state_ptr S) = Some StdErrorOut \<longrightarrow>
             cerr (snd (dostring api str env S w)) = cerr w @ lua_tostring_top L1 @ [CHR 0x0A]))
   \<and> (luaL_loadstring api str (vms w (state_ptr S)) = (0, L1)
        \<and> lua_pcall_wrap api 0 LUA_MULTRET (register_ENV api env L1) = (st2, L3) \<and> st2 \<noteq> 0 \<longrightarrow>
        dostring api str env S w =
          (False, ScopedSavedStack_leave (ScopedSavedStack_enter (state_ptr S) w)
             (ErrorHandler_handle st2 (state_ptr S) (set_vm (state_ptr S) L3 w)))
        \<and> (handlers w (state_ptr S) = Some (UserFunction k) \<longrightarrow>
             delivered (snd (dostring api str env S w)) = delivered w @ [(k, st2, lua_tostring_top L3)])
        \<and> (handlers w (state_ptr S) = Some StdErrorOut \<longrightarrow>
             cerr (snd (dostring api str env S w)) = cerr w @ lua_tostring_top L3 @ [CHR 0x0A]))
   \<and> (fst (dostring api str env S w) \<longrightarrow>
        delivered (snd (dostring api str env S w)) = delivered w
        \<and> cerr (snd (dostring api str env S w)) = cerr w)
   \<and> (fst (dofile api path env S w) \<longleftrightarrow>
      fst (luaL_loadfile api path (vms w (state_ptr S))) = 0
      \<and> fst (lua_pcall_wrap api 0 LUA_MULTRET
               (register_ENV api env (snd (luaL_loadfile api path (vms w (state_ptr S)))))) = 0)
   \<and> (luaL_loadfile api path (vms w (state_ptr S)) = (fst1, M1) \<and> fst1 \<noteq> 0 \<longrightarrow>
        dofile api path env S w =
          (False, ScopedSavedStack_leave (ScopedSavedStack_enter (state_ptr S) w)
             (ErrorHandler_handle fst1 (state_ptr S) (set_vm (state_ptr S) M1 w)))
        \<and> dofile (api\<lparr>lua_pcall_wrap := pc\<rparr>) path env2 S w = dofile api path env S w
        \<and> (handlers w (state_ptr S) = Some (UserFunction k) \<longrightarrow>
             delivered (snd (dofile api path env S w)) = delivered w @ [(k, fst1, lua_tostring_top M1)])
        \<and> (handlers w (state_ptr S) = Some StdErrorOut \<longrightarrow>
             cerr (snd (dofile api path env S w)) = cerr w @ lua_tostring_top M1 @ [CHR 0x0A]))
   \<and> (luaL_loadfile api path (vms w (state_ptr S)) = (0, M1)
        \<and> lua_pcall_wrap api 0 LUA_MULTRET (register_ENV api env M1) = (fst2, M3) \<and> fst2 \<noteq> 0 \<longrightarrow>
        dofile api path env S w =
          (False, ScopedSavedStack_leave (ScopedSavedStack_enter (state_ptr S) w)
             (ErrorHandler_handle fst2 (state_ptr S) (set_vm (state_ptr S) M3 w)))
        \<and> (handlers w (state_ptr S) = Some (UserFunction k) \<longrightarrow>
             delivered (snd (dofile api path env S w)) = delivered w @ [(k, fst2, lua_tostring_top M3)])
        \<and> (handlers w (state_ptr S) = Some StdErrorOut \<longrightarrow>
             cerr (snd (dofile api path env S w)) = cerr w @ lua_tostring_top M3 @ [CHR 0x0A]))
   \<and> (fst (dofile api path env S w) \<longrightarrow>
        delivered (snd (dofile api path env S w)) = delivered w
        \<and> cerr (snd (dofile api path env S w)) = cerr w)"
proof -
  note iffs = dostring_true_iff [of api str env S w] dofile_true_iff [of api path env S w]
  have s1: "luaL_loadstring api str (vms w (state_ptr S)) = (st, L1) \<and> st \<noteq> 0 \<longrightarrow>
        dostring api str env S w =
          (False, ScopedSavedStack_leave (ScopedSavedStack_enter (state_ptr S) w)
             (ErrorHandler_handle st (state_ptr S) (set_vm (state_ptr S) L1 w)))
        \<and> dostring (api\<lparr>lua_pcall_wrap := pc\<rparr>) str env2 S w = dostring api str env S w
        \<and> (handlers w (state_ptr S) = Some (UserFunction k) \<longrightarrow>
             delivered (snd (dostring api str env S w)) = delivered w @ [(k, st, lua_tostring_top L1)])
        \<and> (handlers w (state_ptr S) = Some StdErrorOut \<longrightarrow>
             cerr (snd (dostring api str env S w)) = cerr w @ lua_tostring_top L1 @ [CHR 0x0A])"
    using dostring_compile_failed [of api str w S st L1 env]
      dostring_compile_failed_early [of api str w S st L1 pc env2 env]
    by (simp add: handled_delivered handled_cerr)
  have s2: "luaL_loadstring api str (vms w (state_ptr S)) = (0, L1)
        \<and> lua_pcall_wrap api 0 LUA_MULTRET (register_ENV api env L1) = (st2, L3) \<and> st2 \<noteq> 0 \<longrightarrow>
        dostring api str env S w =
          (False, ScopedSavedStack_leave (ScopedSavedStack_enter (state_ptr S) w)
             (ErrorHandler_handle st2 (state_ptr S) (set_vm (state_ptr S) L3 w)))
        \<and> (handlers w (state_ptr S) = Some (UserFunction k) \<longrightarrow>
             delivered (snd (dostring api str env S w)) = delivered w @ [(k, st2, lua_tostring_top L3)])
        \<and> (handlers w (state_ptr S) = Some StdErrorOut \<longrightarrow>
             cerr (snd (dostring api str env S w)) = cerr w @ lua_tostring_top L3 @ [CHR 0x0A])"
    using dostring_run_failed [of api str w S L1 env st2 L3]
    by (simp add: handled_delivered handled_cerr)
  have f1: "luaL_loadfile api path (vms w (state_ptr S)) = (fst1, M1) \<and> fst1 \<noteq> 0 \<longrightarrow>
        dofile api path env S w =
          (False, ScopedSavedStack_leave (ScopedSavedStack_enter (state_ptr S) w)
             (ErrorHandler_handle fst1 (state_ptr S) (set_vm (state_ptr S) M1 w)))
        \<and> dofile (api\<lparr>lua_pcall_wrap := pc\<rparr>) path env2 S w = dofile api path env S w
        \<and> (handlers w (state_ptr S) = Some (UserFunction k) \<longrightarrow>
             delivered (snd (dofile api path env S w)) = delivered w @ [(k, fst1, lua_tostring_top M1)])
        \<and> (handlers w (state_ptr S) = Some StdErrorOut \<longrightarrow>
             cerr (snd (dofile api path env S w)) = cerr w @ lua_tostring_top M1 @ [CHR 0x0A])"
    using dofile_compile_failed [of api path w S fst1 M1 env]
      dofile_compile_failed_early [of api path w S fst1 M1 pc env2 env]
    by (simp add: handled_delivered handled_cerr)
  have f2: "luaL_loadfile api path (vms w (state_ptr S)) = (0, M1)
        \<and> lua_pcall_wrap api 0 LUA_MULTRET (register_ENV api env M1) = (fst2, M3) \<and> fst2 \<noteq> 0 \<longrightarrow>
        dofile api path env S w =
          (False, ScopedSavedStack_leave (ScopedSavedStack_enter (state_ptr S) w)
             (ErrorHandler_handle fst2 (state_ptr S) (set_vm (state_ptr S) M3 w)))
        \<and> (handlers w (state_ptr S) = Some (UserFunction k) \<longrightarrow>
             delivered (snd (dofile api path env S w)) = delivered w @ [(k, fst2, lua_tostring_top M3)])
        \<and> (handlers w (state_ptr S) = Some StdErrorOut \<longrightarrow>
             cerr (snd (dofile api path env S w)) = cerr w @ lua_tostring_top M3 @ [CHR 0x0A])"
    using dofile_run_failed [of api path w S M1 env fst2 M3]
    by (simp add: handled_delivered handled_cerr)
  from iffs s1 s2 f1 f2 dostring_ok_silent [of api str env S w] dofile_ok_silent [of api path env S w]
  show ?thesis by blast
qed

text \<open>
  The three paths on the example library, with a user error function registered: a text
  that does not compile (status 3), a script that raises (status 2), a script that
  returns; then the same for files, and the default error function on the first path.
\<close>

theorem dostring_dofile_result_witness:
  "fst (dostring (demo_api 503) ''return 1+1'' NilRef demo_State world2)
   \<and> delivered (snd (dostring (demo_api 503) ''return 1+1'' NilRef demo_State world2)) = []
   \<and> dostring (demo_api 503) ''x y z'' NilRef demo_State world2
       = (False, world2\<lparr>delivered := [(7, 3, ''syntax error'')]\<rparr>)
   \<and> dostring (demo_api 503) ''error()'' NilRef demo_State world2
       = (False, world2\<lparr>delivered := [(7, 2, ''boom'')]\<rparr>)
   \<and> cerr (snd (dostring (demo_api 503) ''x y z'' NilRef demo_State world3))
       = ''syntax error'' @ [CHR 0x0A]
   \<and> fst (dofile (demo_api 503) ''ok.lua'' NilRef demo_State world2)
   \<and> delivered (snd (dofile (demo_api 503) ''none.lua'' NilRef demo_State world2))
       = [(7, 6, ''cannot open'')]
   \<and> delivered (snd (dofile (demo_api 503) ''bad.lua'' NilRef demo_State world2))
       = [(7, 2, ''boom'')]
   \<and> cerr (snd (dostring (demo_api 503) ''error()'' NilRef demo_State world3))
       = ''boom'' @ [CHR 0x0A]
   \<and> cerr (snd (dofile (demo_api 503) ''none.lua'' NilRef demo_State world3))
       = ''cannot open'' @ [CHR 0x0A]
   \<and> cerr (snd (dofile (demo_api 503) ''bad.lua'' NilRef demo_State world3))
       = ''boom'' @ [CHR 0x0A]"
proof -
  let ?api = "demo_api 503"
  let ?S = demo_State
  note ev = demo_api_def demo_State_def world2_def world3_def world1_def world0_def
    registerHandler_def set_vm_def new_lua_State_def demo_loadstring_def demo_loadfile_def
    demo_pcall_def register_ENV_def isNilref_def lua_push_def LUA_MULTRET_def
    lua_tostring_top_def
  have user: "handlers world2 (state_ptr ?S) = Some (UserFunction 7)"
    and dflt: "handlers world3 (state_ptr ?S) = Some StdErrorOut"
    and quiet: "delivered world2 = []" "cerr world3 = []"
    by (simp_all add: ev)
  \<comment> \<open>success\<close>
  have ok: "fst (luaL_loadstring ?api ''return 1+1'' (vms world2 (state_ptr ?S))) = 0
      \<and> fst (lua_pcall_wrap ?api 0 LUA_MULTRET (register_ENV ?api NilRef
            (snd (luaL_loadstring ?api ''return 1+1'' (vms world2 (state_ptr ?S)))))) = 0"
    by (simp add: ev)
  have okf: "fst (luaL_loadfile ?api ''ok.lua'' (vms world2 (state_ptr ?S))) = 0
      \<and> fst (lua_pcall_wrap ?api 0 LUA_MULTRET (register_ENV ?api NilRef
            (snd (luaL_loadfile ?api ''ok.lua'' (vms world2 (state_ptr ?S)))))) = 0"
    by (simp add: ev)
  from dostring_dofile_result [where api = ?api and S = ?S and w = world2
      and str = "''return 1+1''" and env = NilRef and path = "''ok.lua''"
      and st = 0 and ?L1.0 = new_lua_State and ?st2.0 = 0 and ?L3.0 = new_lua_State
      and ?fst1.0 = 0 and ?M1.0 = new_lua_State and ?fst2.0 = 0 and ?M3.0 = new_lua_State
      and k = 7 and pc = demo_pcall and ?env2.0 = NilRef] ok okf
  have A: "fst (dostring ?api ''return 1+1'' NilRef ?S world2)
      \<and> delivered (snd (dostring ?api ''return 1+1'' NilRef ?S world2)) = delivered world2
      \<and> fst (dofile ?api ''ok.lua'' NilRef ?S world2)"
    by blast
  \<comment> \<open>the compile step fails\<close>
  define L1 where "L1 = snd (luaL_loadstring ?api ''x y z'' (vms world2 (state_ptr ?S)))"
  define M1 where "M1 = snd (luaL_loadfile ?api ''none.lua'' (vms world2 (state_ptr ?S)))"
  have c: "luaL_loadstring ?api ''x y z'' (vms world2 (state_ptr ?S)) = (3, L1) \<and> (3::int) \<noteq> 0"
    and cm: "lua_tostring_top L1 = ''syntax error''"
    and cf: "luaL_loadfile ?api ''none.lua'' (vms world2 (state_ptr ?S)) = (6, M1) \<and> (6::int) \<noteq> 0"
    and cfm: "lua_tostring_top M1 = ''cannot open''"
    by (simp_all add: L1_def M1_def ev)
  from dostring_dofile_result [where api = ?api and S = ?S and w = world2
      and str = "''x y z''" and env = NilRef and path = "''none.lua''"
      and st = 3 and ?L1.0 = L1 and ?fst1.0 = 6 and ?M1.0 = M1 and k = 7
      and ?st2.0 = 0 and ?L3.0 = new_lua_State and ?fst2.0 = 0 and ?M3.0 = new_lua_State
      and pc = demo_pcall and ?env2.0 = NilRef] c cf user
  have B: "dostring ?api ''x y z'' NilRef ?S world2 =
        (False, ScopedSavedStack_leave (ScopedSavedStack_enter (state_ptr ?S) world2)
           (ErrorHandler_handle 3 (state_ptr ?S) (set_vm (state_ptr ?S) L1 world2)))
      \<and> delivered (snd (dofile ?api ''none.lua'' NilRef ?S world2))
          = delivered world2 @ [(7, 6, lua_tostring_top M1)]"
    by blast
  have B': "ScopedSavedStack_leave (ScopedSavedStack_enter (state_ptr ?S) world2)
           (ErrorHandler_handle 3 (state_ptr ?S) (set_vm (state_ptr ?S) L1 world2))
       = world2\<lparr>delivered := [(7, 3, ''syntax error'')]\<rparr>"
    by (simp add: L1_def ev ScopedSavedStack_leave_def ScopedSavedStack_enter_def
        ErrorHandler_handle_def getHandler_def call_errorfunction_def on_vm_def lua_pop_def
        lua_settop_def lua_gettop_def Let_def fun_eq_iff)
  define K1 where "K1 = snd (luaL_loadstring ?api ''x y z'' (vms world3 (state_ptr ?S)))"
  define N1 where "N1 = snd (luaL_loadfile ?api ''none.lua'' (vms world3 (state_ptr ?S)))"
  have d: "luaL_loadstring ?api ''x y z'' (vms world3 (state_ptr ?S)) = (3, K1) \<and> (3::int) \<noteq> 0"
    and dm: "lua_tostring_top K1 = ''syntax error''"
    and df: "luaL_loadfile ?api ''none.lua'' (vms world3 (state_ptr ?S)) = (6, N1) \<and> (6::int) \<noteq> 0"
    and dfm: "lua_tostring_top N1 = ''cannot open''"
    by (simp_all add: K1_def N1_def ev)
  from dostring_dofile_result [where api = ?api and S = ?S and w = world3
      and str = "''x y z''" and env = NilRef and st = 3 and ?L1.0 = K1
      and path = "''none.lua''" and ?st2.0 = 0 and ?L3.0 = new_lua_State
      and ?fst1.0 = 6 and ?M1.0 = N1 and ?fst2.0 = 0 and ?M3.0 = new_lua_State
      and k = 7 and pc = demo_pcall and ?env2.0 = NilRef] d df dflt
  have C: "cerr (snd (dostring ?api ''x y z'' NilRef ?S world3))
        = cerr world3 @ lua_tostring_top K1 @ [CHR 0x0A]
      \<and> cerr (snd (dofile ?api ''none.lua'' NilRef ?S world3))
        = cerr world3 @ lua_tostring_top N1 @ [CHR 0x0A]"
    by blast
  define K2 where "K2 = snd (luaL_loadstring ?api ''error()'' (vms world3 (state_ptr ?S)))"
  define K3 where "K3 = snd (lua_pcall_wrap ?api 0 LUA_MULTRET (register_ENV ?api NilRef K2))"
  define N2 where "N2 = snd (luaL_loadfile ?api ''bad.lua'' (vms world3 (state_ptr ?S)))"
  define N3 where "N3 = snd (lua_pcall_wrap ?api 0 LUA_MULTRET (register_ENV ?api NilRef N2))"
  have e: "luaL_loadstring ?api ''error()'' (vms world3 (state_ptr ?S)) = (0, K2)
      \<and> lua_pcall_wrap ?api 0 LUA_MULTRET (register_ENV ?api NilRef K2) = (2, K3) \<and> (2::int) \<noteq> 0"
    and em: "lua_tostring_top K3 = ''boom''"
    and ef: "luaL_loadfile ?api ''bad.lua'' (vms world3 (state_ptr ?S)) = (0, N2)
      \<and> lua_pcall_wrap ?api 0 LUA_MULTRET (register_ENV ?api NilRef N2) = (2, N3) \<and> (2::int) \<noteq> 0"
    and efm: "lua_tostring_top N3 = ''boom''"
    by (simp_all add: K2_def K3_def N2_def N3_def ev)
  from dostring_dofile_result [where api = ?api and S = ?S and w = world3
      and str = "''error()''" and env = NilRef and path = "''bad.lua''"
      and ?L1.0 = K2 and ?st2.0 = 2 and ?L3.0 = K3
      and ?M1.0 = N2 and ?fst2.0 = 2 and ?M3.0 = N3 and k = 7
      and st = 0 and ?fst1.0 = 0 and pc = demo_pcall and ?env2.0 = NilRef] e ef dflt
  have C': "cerr (snd (dostring ?api ''error()'' NilRef ?S world3))
        = cerr world3 @ lua_tostring_top K3 @ [CHR 0x0A]
      \<and> cerr (snd (dofile ?api ''bad.lua'' NilRef ?S world3))
        = cerr world3 @ lua_tostring_top N3 @ [CHR 0x0A]"
    by blast
  \<comment> \<open>the protected call fails\<close>
  define L2 where "L2 = snd (luaL_loadstring ?api ''error()'' (vms world2 (state_ptr ?S)))"
  define L3 where "L3 = snd (lua_pcall_wrap ?api 0 LUA_MULTRET (register_ENV ?api NilRef L2))"
  define M2 where "M2 = snd (luaL_loadfile ?api ''bad.lua'' (vms world2 (state_ptr ?S)))"
  define M3 where "M3 = snd (lua_pcall_wrap ?api 0 LUA_MULTRET (register_ENV ?api NilRef M2))"
  have r: "luaL_loadstring ?api ''error()'' (vms world2 (state_ptr ?S)) = (0, L2)
      \<and> lua_pcall_wrap ?api 0 LUA_MULTRET (register_ENV ?api NilRef L2) = (2, L3) \<and> (2::int) \<noteq> 0"
    and rm: "lua_tostring_top L3 = ''boom''"
    and rf: "luaL_loadfile ?api ''bad.lua'' (vms world2 (state_ptr ?S)) = (0, M2)
      \<and> lua_pcall_wrap ?api 0 LUA_MULTRET (register_ENV ?api NilRef M2) = (2, M3) \<and> (2::int) \<noteq> 0"
    and rfm: "lua_tostring_top M3 = ''boom''"
    by (simp_all add: L2_def L3_def M2_def M3_def ev)
  from dostring_dofile_result [where api = ?api and S = ?S and w = world2
      and str = "''error()''" and env = NilRef and path = "''bad.lua''"
      and ?L1.0 = L2 and ?st2.0 = 2 and ?L3.0 = L3
      and ?M1.0 = M2 and ?fst2.0 = 2 and ?M3.0 = M3 and k = 7
      and st = 0 and ?fst1.0 = 0 and pc = demo_pcall and ?env2.0 = NilRef] r rf user
  have D: "dostring ?api ''error()'' NilRef ?S world2 =
        (False, ScopedSavedStack_leave (ScopedSavedStack_enter (state_ptr ?S) world2)
           (ErrorHandler_handle 2 (state_ptr ?S) (set_vm (state_ptr ?S) L3 world2)))
      \<and> delivered (snd (dofile ?api ''bad.lua'' NilRef ?S world2))
          = delivered world2 @ [(7, 2, lua_tostring_top M3)]"
    by blast
  have D': "ScopedSavedStack_leave (ScopedSavedStack_enter (state_ptr ?S) world2)
           (ErrorHandler_handle 2 (state_ptr ?S) (set_vm (state_ptr ?S) L3 world2))
       = world2\<lparr>delivered := [(7, 2, ''boom'')]\<rparr>"
    by (simp add: L2_def L3_def ev ScopedSavedStack_leave_def ScopedSavedStack_enter_def
        ErrorHandler_handle_def getHandler_def call_errorfunction_def on_vm_def lua_pop_def
        lua_settop_def lua_gettop_def Let_def fun_eq_iff)
  from A B B' C C' D D' quiet cm cfm dm dfm em efm rm rfm show ?thesis by simp
qed

section \<open>Construction, adoption and destruction\<close>

lemma lua_settop_gettop: "lua_settop (lua_gettop L) L = L"
  by (simp add: lua_gettop_def lua_settop_def Let_def)

lemma setErrorHandler_eq:
  "setErrorHandler S f w = w\<lparr>handlers := (handlers w)(state_ptr S \<mapsto> f)\<rparr>"
  by (simp add: setErrorHandler_def Let_def ScopedSavedStack_leave_def ScopedSavedStack_enter_def
      registerHandler_def on_vm_def lua_settop_gettop)

lemma init_eq:
  "init S w =
     w\<lparr>vms := (vms w)(state_ptr S := (vms w (state_ptr S))\<lparr>functor_destructor := True\<rparr>),
       handlers := (if handlers w (state_ptr S) = None
                    then (handlers w)(state_ptr S \<mapsto> StdErrorOut) else handlers w)\<rparr>"
  by (simp add: init_def Let_def getHandler_def setErrorHandler_eq on_vm_def
      reg_functor_destructor_def)

lemma openlibs_std_host:
  assumes "openlibs_std api S w = Inr w1"
  shows "handlers w1 = handlers w \<and> panics w1 = panics w \<and> closed w1 = closed w
    \<and> cerr w1 = cerr w \<and> delivered w1 = delivered w"
  using assms
  by (auto simp: openlibs_std_def Let_def ScopedSavedStack_leave_def on_vm_def set_vm_def
      split: sum.splits)

lemma openlib_host:
  assumes "openlib api lib S w = Inr w1"
  shows "handlers w1 = handlers w \<and> panics w1 = panics w \<and> closed w1 = closed w
    \<and> cerr w1 = cerr w \<and> delivered w1 = delivered w"
  using assms
  by (auto simp: openlib_def Let_def ScopedSavedStack_leave_def on_vm_def set_vm_def
      split: sum.splits)

lemma openlibs_host:
  "openlibs api libs S w = Inr w1 \<Longrightarrow>
     handlers w1 = handlers w \<and> panics w1 = panics w \<and> closed w1 = closed w
     \<and> cerr w1 = cerr w \<and> delivered w1 = delivered w"
proof (induction libs arbitrary: w)
  case Nil
  then show ?case by simp
next
  case (Cons lib libs)
  from Cons.prems obtain w2 where
    first: "openlib api lib S w = Inr w2" and rest: "openlibs api libs S w2 = Inr w1"
    by (auto split: sum.splits)
  from Cons.IH [OF rest] openlib_host [OF first] show ?case by simp
qed

text \<open>What every fresh constructor has done when it returns.\<close>

lemma State_new_done:
  assumes "State_new api p w = Inr (S, w1)"
  shows "S = \<lparr>allocator_holder = None, state_ptr = p, created = True\<rparr>
    \<and> panics w1 = (panics w)(p \<mapsto> default_panic)
    \<and> closed w1 = closed w - {p}
    \<and> handlers w1 = (if handlers w p = None then (handlers w)(p \<mapsto> StdErrorOut) else handlers w)"
proof -
  let ?S = "\<lparr>allocator_holder = None, state_ptr = p, created = True\<rparr>"
  let ?w3 = "init ?S (lua_atpanic p default_panic (luaL_newstate p w))"
  from assms have S: "S = ?S" and libs: "openlibs_std api ?S ?w3 = Inr w1"
    by (auto simp: State_new_def Let_def split: sum.splits)
  from openlibs_std_host [OF libs] S show ?thesis
    by (simp add: init_eq lua_atpanic_def luaL_newstate_def)
qed

lemma State_new_alloc_done:
  assumes "State_new_alloc api a p w = Inr (S, w1)"
  shows "S = \<lparr>allocator_holder = Some a, state_ptr = p, created = True\<rparr>
    \<and> panics w1 = (panics w)(p \<mapsto> default_panic)
    \<and> closed w1 = closed w - {p}
    \<and> handlers w1 = (if handlers w p = None then (handlers w)(p \<mapsto> StdErrorOut) else handlers w)"
proof -
  let ?S = "\<lparr>allocator_holder = Some a, state_ptr = p, created = True\<rparr>"
  let ?w3 = "init ?S (lua_atpanic p default_panic (lua_newstate p w))"
  from assms have S: "S = ?S" and libs: "openlibs_std api ?S ?w3 = Inr w1"
    by (auto simp: State_new_alloc_def Let_def split: sum.splits)
  from openlibs_std_host [OF libs] S show ?thesis
    by (simp add: init_eq lua_atpanic_def lua_newstate_def)
qed

lemma State_libs_done:
  assumes "State_libs api libs p w = Inr (S, w1)"
  shows "S = \<lparr>allocator_holder = None, state_ptr = p, created = True\<rparr>
    \<and> panics w1 = (panics w)(p \<mapsto> default_panic)
    \<and> closed w1 = closed w - {p}
    \<and> handlers w1 = (if handlers w p = None then (handlers w)(p \<mapsto> StdErrorOut) else handlers w)"
proof -
  let ?S = "\<lparr>allocator_holder = None, state_ptr = p, created = True\<rparr>"
  let ?w3 = "init ?S (lua_atpanic p default_panic (luaL_newstate p w))"
  from assms have S: "S = ?S" and libs: "openlibs api libs ?S ?w3 = Inr w1"
    by (auto simp: State_libs_def Let_def split: sum.splits)
  from openlibs_host [OF libs] S show ?thesis
    by (simp add: init_eq lua_atpanic_def luaL_newstate_def)
qed

lemma State_libs_alloc_done:
  assumes "State_libs_alloc api libs a p w = Inr (S, w1)"
  shows "S = \<lparr>allocator_holder = Some a, state_ptr = p, created = True\<rparr>
    \<and> panics w1 = (panics w)(p \<mapsto> default_panic)
    \<and> closed w1 = closed w - {p}
    \<and> handlers w1 = (if handlers w p = None then (handlers w)(p \<mapsto> StdErrorOut) else handlers w)"
proof -
  let ?S = "\<lparr>allocator_holder = Some a, state_ptr = p, created = True\<rparr>"
  let ?w3 = "init ?S (lua_atpanic p default_panic (lua_newstate p w))"
  from assms have S: "S = ?S" and libs: "openlibs api libs ?S ?w3 = Inr w1"
    by (auto simp: State_libs_alloc_def Let_def split: sum.splits)
  from openlibs_host [OF libs] S show ?thesis
    by (simp add: init_eq lua_atpanic_def lua_newstate_def)
qed

lemma State_adopt_eq:
  "State_adopt lua w =
     (\<lparr>allocator_holder = None, state_ptr = lua, created = False\<rparr>,
      w\<lparr>vms := (vms w)(lua := (vms w lua)\<lparr>functor_destructor := True\<rparr>),
        handlers := (if handlers w lua = None
                     then (handlers w)(lua \<mapsto> StdErrorOut) else handlers w)\<rparr>)"
  by (simp add: State_adopt_def Let_def init_eq)

text \<open>
  C3, as amended. Adopting an existing VM takes no ownership (\<open>created_\<close> is false, and
  destroying the handle changes nothing), installs the default error handler for that
  VM when none is registered and keeps a registered one, and registers the functor
  destructor; it changes nothing else of the VM and leaves every panic function as it
  was: the adopting constructor does not call \<open>lua_atpanic\<close>. The four fresh
  constructors, when they return, own the VM, have installed \<open>default_panic\<close> (whatever
  was there), and have defaulted the error handler in the same way.
\<close>

theorem adoption_keeps_panic_function:
  "created (fst (State_adopt lua w)) = False
   \<and> state_ptr (fst (State_adopt lua w)) = lua
   \<and> State_destroy (fst (State_adopt lua w)) w' = w'
   \<and> panics (snd (State_adopt lua w)) = panics w
   \<and> closed (snd (State_adopt lua w)) = closed w
   \<and> (handlers w lua = None \<longrightarrow> handlers (snd (State_adopt lua w)) lua = Some StdErrorOut)
   \<and> (handlers w lua = Some h \<longrightarrow> handlers (snd (State_adopt lua w)) lua = Some h)
   \<and> vms (snd (State_adopt lua w)) lua = (vms w lua)\<lparr>functor_destructor := True\<rparr>
   \<and> (State_new api p w = Inr (S1, w1) \<longrightarrow>
        created S1 \<and> state_ptr S1 = p \<and> panics w1 p = Some default_panic
        \<and> (handlers w p = None \<longrightarrow> handlers w1 p = Some StdErrorOut)
        \<and> (handlers w p = Some h \<longrightarrow> handlers w1 p = Some h))
   \<and> (State_new_alloc api a p w = Inr (S2, w2) \<longrightarrow>
        created S2 \<and> state_ptr S2 = p \<and> panics w2 p = Some default_panic
        \<and> (handlers w p = None \<longrightarrow> handlers w2 p = Some StdErrorOut)
        \<and> (handlers w p = Some h \<longrightarrow> handlers w2 p = Some h))
   \<and> (State_libs api libs p w = Inr (S3, w3) \<longrightarrow>
        created S3 \<and> state_ptr S3 = p \<and> panics w3 p = Some default_panic
        \<and> (handlers w p = None \<longrightarrow> handlers w3 p = Some StdErrorOut)
        \<and> (handlers w p = Some h \<longrightarrow> handlers w3 p = Some h))
   \<and> (State_libs_alloc api libs a p w = Inr (S4, w4) \<longrightarrow>
        created S4 \<and> state_ptr S4 = p \<and> panics w4 p = Some default_panic
        \<and> (handlers w p = None \<longrightarrow> handlers w4 p = Some StdErrorOut)
        \<and> (handlers w p = Some h \<longrightarrow> handlers w4 p = Some h))"
proof -
  have adopt: "created (fst (State_adopt lua w)) = False
     \<and> state_ptr (fst (State_adopt lua w)) = lua
     \<and> State_destroy (fst (State_adopt lua w)) w' = w'
     \<and> panics (snd (State_adopt lua w)) = panics w
     \<and> closed (snd (State_adopt lua w)) = closed w
     \<and> (handlers w lua = None \<longrightarrow> handlers (snd (State_adopt lua w)) lua = Some StdErrorOut)
     \<and> (handlers w lua = Some h \<longrightarrow> handlers (snd (State_adopt lua w)) lua = Some h)
     \<and> vms (snd (State_adopt lua w)) lua = (vms w lua)\<lparr>functor_destructor := True\<rparr>"
    by (simp add: State_adopt_eq State_destroy_def)
  have fresh1: "State_new api p w = Inr (S1, w1) \<longrightarrow>
        created S1 \<and> state_ptr S1 = p \<and> panics w1 p = Some default_panic
        \<and> (handlers w p = None \<longrightarrow> handlers w1 p = Some StdErrorOut)
        \<and> (handlers w p = Some h \<longrightarrow> handlers w1 p = Some h)"
  proof
    assume made: "State_new api p w = Inr (S1, w1)"
    from State_new_done [OF made] show "created S1 \<and> state_ptr S1 = p \<and> panics w1 p = Some default_panic
        \<and> (handlers w p = None \<longrightarrow> handlers w1 p = Some StdErrorOut)
        \<and> (handlers w p = Some h \<longrightarrow> handlers w1 p = Some h)"
      by simp
  qed
  have fresh2: "State_new_alloc api a p w = Inr (S2, w2) \<longrightarrow>
        created S2 \<and> state_ptr S2 = p \<and> panics w2 p = Some default_panic
        \<and> (handlers w p = None \<longrightarrow> handlers w2 p = Some StdErrorOut)
        \<and> (handlers w p = Some h \<longrightarrow> handlers w2 p = Some h)"
  proof
    assume made: "State_new_alloc api a p w = Inr (S2, w2)"
    from State_new_alloc_done [OF made] show "created S2 \<and> state_ptr S2 = p \<and> panics w2 p = Some default_panic
        \<and> (handlers w p = None \<longrightarrow> handlers w2 p = Some StdErrorOut)
        \<and> (handlers w p = Some h \<longrightarrow> handlers w2 p = Some h)"
      by simp
  qed
  have fresh3: "State_libs api libs p w = Inr (S3, w3) \<longrightarrow>
        created S3 \<and> state_ptr S3 = p \<and> panics w3 p = Some default_panic
        \<and> (handlers w p = None \<longrightarrow> handlers w3 p = Some StdErrorOut)
        \<and> (handlers w p = Some h \<longrightarrow> handlers w3 p = Some h)"
  proof
    assume made: "State_libs api libs p w = Inr (S3, w3)"
    from State_libs_done [OF made] show "created S3 \<and> state_ptr S3 = p \<and> panics w3 p = Some default_panic
        \<and> (handlers w p = None \<longrightarrow> handlers w3 p = Some StdErrorOut)
        \<and> (handlers w p = Some h \<longrightarrow> handlers w3 p = Some h)"
      by simp
  qed
  have fresh4: "State_libs_alloc api libs a p w = Inr (S4, w4) \<longrightarrow>
        created S4 \<and> state_ptr S4 = p \<and> panics w4 p = Some default_panic
        \<and> (handlers w p = None \<longrightarrow> handlers w4 p = Some StdErrorOut)
        \<and> (handlers w p = Some h \<longrightarrow> handlers w4 p = Some h)"
  proof
    assume made: "State_libs_alloc api libs a p w = Inr (S4, w4)"
    from State_libs_alloc_done [OF made] show "created S4 \<and> state_ptr S4 = p \<and> panics w4 p = Some default_panic
        \<and> (handlers w p = None \<longrightarrow> handlers w4 p = Some StdErrorOut)
        \<and> (handlers w p = Some h \<longrightarrow> handlers w4 p = Some h)"
      by simp
  qed
  from adopt fresh1 fresh2 fresh3 fresh4 show ?thesis by blast
qed

text \<open>
  C3 as stated fails on the panic trap: VM 5 has no panic function and no error handler;
  after adoption it has the default error handler and still no panic function.
\<close>

theorem adoption_installs_no_panic_trap:
  "panics world0 5 = None
   \<and> handlers world0 5 = None
   \<and> panics (snd (State_adopt 5 world0)) 5 = None
   \<and> handlers (snd (State_adopt 5 world0)) 5 = Some StdErrorOut"
  by (simp add: State_adopt_eq world0_def)

text \<open>
  The amended statement on the example process: VM 1 adopted with no handler and with a
  user handler registered; a fresh VM at address 2 made with the standard libraries, with
  a custom allocator, with an empty library list and with a list of one library.
\<close>

theorem adoption_keeps_panic_function_witness:
  "handlers world1 1 = None
   \<and> handlers (snd (State_adopt 1 world1)) 1 = Some StdErrorOut
   \<and> handlers world2 1 = Some (UserFunction 7)
   \<and> handlers (snd (State_adopt 1 world2)) 1 = Some (UserFunction 7)
   \<and> panics (snd (State_adopt 1 world2)) 1 = None
   \<and> (\<exists>S1 w1. State_new (demo_api 503) 2 world2 = Inr (S1, w1)
          \<and> created S1 \<and> panics w1 2 = Some default_panic \<and> handlers w1 2 = Some StdErrorOut)
   \<and> (\<exists>S2 w2. State_new_alloc (demo_api 503) 9 2 world2 = Inr (S2, w2)
          \<and> created S2 \<and> panics w2 2 = Some default_panic \<and> handlers w2 2 = Some StdErrorOut)
   \<and> (\<exists>S3 w3. State_libs (demo_api 503) [] 2 world2 = Inr (S3, w3)
          \<and> created S3 \<and> panics w3 2 = Some default_panic \<and> handlers w3 2 = Some StdErrorOut)
   \<and> (\<exists>S4 w4. State_libs_alloc (demo_api 503) [(''m'', good_registrar)] 9 2 world2 = Inr (S4, w4)
          \<and> created S4 \<and> panics w4 2 = Some default_panic \<and> handlers w4 2 = Some StdErrorOut)
   \<and> (\<exists>S5 w5. State_libs (demo_api 503) [] 1 world2 = Inr (S5, w5)
          \<and> created S5 \<and> panics w5 1 = Some default_panic \<and> handlers w5 1 = Some (UserFunction 7))"
proof -
  note ev = world2_def world1_def world0_def registerHandler_def set_vm_def
  have pre: "handlers world1 1 = None" "handlers world2 1 = Some (UserFunction 7)"
    "handlers world2 2 = None" "panics world2 = (\<lambda>p. None)"
    by (simp_all add: ev)
  obtain S1 w1 where c1: "State_new (demo_api 503) 2 world2 = Inr (S1, w1)"
    by (simp add: State_new_def Let_def openlibs_std_def demo_api_def demo_openlibs_def)
  obtain S2 w2 where c2: "State_new_alloc (demo_api 503) 9 2 world2 = Inr (S2, w2)"
    by (simp add: State_new_alloc_def Let_def openlibs_std_def demo_api_def demo_openlibs_def)
  obtain S3 w3 where c3: "State_libs (demo_api 503) [] 2 world2 = Inr (S3, w3)"
    by (simp add: State_libs_def Let_def)
  obtain S4 w4 where
    c4: "State_libs_alloc (demo_api 503) [(''m'', good_registrar)] 9 2 world2 = Inr (S4, w4)"
    by (simp add: State_libs_alloc_def Let_def openlib_def demo_api_def demo_requiref_def
        good_registrar_def)
  from adoption_keeps_panic_function [where lua = 1 and w = world1 and w' = world1
      and h = "UserFunction 7" and api = "demo_api 503" and p = 2 and a = 9 and libs = "[]"
      and ?S1.0 = S1 and ?w1.0 = w1 and ?S2.0 = S2 and ?w2.0 = w2
      and ?S3.0 = S3 and ?w3.0 = w3 and ?S4.0 = S4 and ?w4.0 = w4] pre
  have A: "handlers (snd (State_adopt 1 world1)) 1 = Some StdErrorOut"
    by blast
  from adoption_keeps_panic_function [where lua = 1 and w = world2 and w' = world2
      and h = "UserFunction 7" and api = "demo_api 503" and p = 2 and a = 9 and libs = "[]"
      and ?S1.0 = S1 and ?w1.0 = w1 and ?S2.0 = S2 and ?w2.0 = w2
      and ?S3.0 = S3 and ?w3.0 = w3 and ?S4.0 = S3 and ?w4.0 = w3] pre c1 c2 c3
  have B: "handlers (snd (State_adopt 1 world2)) 1 = Some (UserFunction 7)
      \<and> panics (snd (State_adopt 1 world2)) 1 = None
      \<and> created S1 \<and> panics w1 2 = Some default_panic \<and> handlers w1 2 = Some StdErrorOut
      \<and> created S2 \<and> panics w2 2 = Some default_panic \<and> handlers w2 2 = Some StdErrorOut
      \<and> created S3 \<and> panics w3 2 = Some default_panic \<and> handlers w3 2 = Some StdErrorOut"
    by simp
  from adoption_keeps_panic_function [where lua = 1 and w = world2 and w' = world2
      and h = "UserFunction 7" and api = "demo_api 503" and p = 2 and a = 9
      and libs = "[(''m'', good_registrar)]"
      and ?S1.0 = S1 and ?w1.0 = w1 and ?S2.0 = S2 and ?w2.0 = w2
      and ?S3.0 = S3 and ?w3.0 = w3 and ?S4.0 = S4 and ?w4.0 = w4] pre c4
  have C: "created S4 \<and> panics w4 2 = Some default_panic \<and> handlers w4 2 = Some StdErrorOut"
    by simp
  obtain S5 w5 where c5: "State_libs (demo_api 503) [] 1 world2 = Inr (S5, w5)"
    by (simp add: State_libs_def Let_def)
  from adoption_keeps_panic_function [where lua = 1 and w = world2 and w' = world2
      and h = "UserFunction 7" and api = "demo_api 503" and p = 1 and a = 9 and libs = "[]"
      and ?S1.0 = S1 and ?w1.0 = w1 and ?S2.0 = S2 and ?w2.0 = w2
      and ?S3.0 = S5 and ?w3.0 = w5 and ?S4.0 = S4 and ?w4.0 = w4] pre c5
  have D: "created S5 \<and> panics w5 1 = Some default_panic \<and> handlers w5 1 = Some (UserFunction 7)"
    by simp
  from pre A B C D c1 c2 c3 c4 c5 show ?thesis by simp
qed

text \<open>
  C4. The destructor calls \<open>lua_close\<close> exactly when \<open>created_\<close> is set: on a VM that
  is open, the VM is closed afterwards if and only if the handle was created in an owning
  mode. With \<open>created_\<close> false the destructor changes nothing at all, so a handle made
  by adoption leaves the VM as it was, open if it was open; a handle made by one of the
  four fresh constructors closes its VM.
\<close>

theorem destructor_closes_iff_created:
  "(state_ptr S \<notin> closed w \<longrightarrow> (state_ptr S \<in> closed (State_destroy S w) \<longleftrightarrow> created S))
   \<and> (created S \<longrightarrow> State_destroy S w = lua_close (state_ptr S) w)
   \<and> (\<not> created S \<longrightarrow> State_destroy S w = w)
   \<and> State_destroy (fst (State_adopt lua w0)) w = w
   \<and> (lua \<notin> closed w \<longrightarrow> lua \<notin> closed (State_destroy (fst (State_adopt lua w0)) w))
   \<and> (State_new api p w0 = Inr (S1, w1) \<longrightarrow> p \<in> closed (State_destroy S1 w))
   \<and> (State_new_alloc api a p w0 = Inr (S2, w2) \<longrightarrow> p \<in> closed (State_destroy S2 w))
   \<and> (State_libs api libs p w0 = Inr (S3, w3) \<longrightarrow> p \<in> closed (State_destroy S3 w))
   \<and> (State_libs_alloc api libs a p w0 = Inr (S4, w4) \<longrightarrow> p \<in> closed (State_destroy S4 w))"
proof -
  have basic: "(state_ptr S \<notin> closed w \<longrightarrow> (state_ptr S \<in> closed (State_destroy S w) \<longleftrightarrow> created S))
     \<and> (created S \<longrightarrow> State_destroy S w = lua_close (state_ptr S) w)
     \<and> (\<not> created S \<longrightarrow> State_destroy S w = w)"
    by (simp add: State_destroy_def lua_close_def)
  have adopted: "State_destroy (fst (State_adopt lua w0)) w = w"
    by (simp add: State_adopt_eq State_destroy_def)
  have f1: "State_new api p w0 = Inr (S1, w1) \<longrightarrow> p \<in> closed (State_destroy S1 w)"
  proof
    assume made: "State_new api p w0 = Inr (S1, w1)"
    from State_new_done [OF made] show "p \<in> closed (State_destroy S1 w)"
      by (simp add: State_destroy_def lua_close_def)
  qed
  have f2: "State_new_alloc api a p w0 = Inr (S2, w2) \<longrightarrow> p \<in> closed (State_destroy S2 w)"
  proof
    assume made: "State_new_alloc api a p w0 = Inr (S2, w2)"
    from State_new_alloc_done [OF made] show "p \<in> closed (State_destroy S2 w)"
      by (simp add: State_destroy_def lua_close_def)
  qed
  have f3: "State_libs api libs p w0 = Inr (S3, w3) \<longrightarrow> p \<in> closed (State_destroy S3 w)"
  proof
    assume made: "State_libs api libs p w0 = Inr (S3, w3)"
    from State_libs_done [OF made] show "p \<in> closed (State_destroy S3 w)"
      by (simp add: State_destroy_def lua_close_def)
  qed
  have f4: "State_libs_alloc api libs a p w0 = Inr (S4, w4) \<longrightarrow> p \<in> closed (State_destroy S4 w)"
  proof
    assume made: "State_libs_alloc api libs a p w0 = Inr (S4, w4)"
    from State_libs_alloc_done [OF made] show "p \<in> closed (State_destroy S4 w)"
      by (simp add: State_destroy_def lua_close_def)
  qed
  from basic adopted f1 f2 f3 f4 show ?thesis by simp
qed

text \<open>
  On the example process: VM 1 is adopted and the handle destroyed, VM 1 stays open and
  the process is unchanged; VM 2 is made fresh, is open, and is closed by the destructor.
\<close>

theorem destructor_closes_iff_created_witness:
  "1 \<notin> closed (snd (State_adopt 1 world1))
   \<and> \<not> created (fst (State_adopt 1 world1))
   \<and> State_destroy (fst (State_adopt 1 world1)) (snd (State_adopt 1 world1))
       = snd (State_adopt 1 world1)
   \<and> 1 \<notin> closed (State_destroy (fst (State_adopt 1 world1)) (snd (State_adopt 1 world1)))
   \<and> (\<exists>S1 w1. State_new (demo_api 503) 2 world1 = Inr (S1, w1)
          \<and> created S1 \<and> state_ptr S1 = 2 \<and> 2 \<notin> closed w1 \<and> 2 \<in> closed (State_destroy S1 w1))
   \<and> (\<exists>S3 w3. State_libs (demo_api 503) [(''m'', good_registrar)] 2 world1 = Inr (S3, w3)
          \<and> created S3 \<and> state_ptr S3 = 2 \<and> 2 \<notin> closed w3 \<and> 2 \<in> closed (State_destroy S3 w3))
   \<and> (\<exists>S2 w2. State_new_alloc (demo_api 503) 9 2 world1 = Inr (S2, w2)
          \<and> 2 \<in> closed (State_destroy S2 w2))
   \<and> (\<exists>S4 w4. State_libs_alloc (demo_api 503) [(''m'', good_registrar)] 9 2 world1 = Inr (S4, w4)
          \<and> 2 \<in> closed (State_destroy S4 w4))"
proof -
  have open1: "1 \<notin> closed (snd (State_adopt 1 world1))"
    and adopted: "\<not> created (fst (State_adopt 1 world1))"
    by (simp_all add: State_adopt_eq world1_def world0_def set_vm_def)
  obtain S1 w1 where c1: "State_new (demo_api 503) 2 world1 = Inr (S1, w1)"
    by (simp add: State_new_def Let_def openlibs_std_def demo_api_def demo_openlibs_def)
  obtain S3 w3 where
    c3: "State_libs (demo_api 503) [(''m'', good_registrar)] 2 world1 = Inr (S3, w3)"
    by (simp add: State_libs_def Let_def openlib_def demo_api_def demo_requiref_def
        good_registrar_def)
  from State_new_done [OF c1] State_libs_done [OF c3]
  have own: "created S1" "state_ptr S1 = 2" "2 \<notin> closed w1"
    "created S3" "state_ptr S3 = 2" "2 \<notin> closed w3"
    by simp_all
  from destructor_closes_iff_created [where S = "fst (State_adopt 1 world1)"
      and w = "snd (State_adopt 1 world1)" and lua = 1 and ?w0.0 = world1
      and api = "demo_api 503" and p = 2 and a = 9 and libs = "[]"
      and ?S1.0 = S1 and ?w1.0 = w1 and ?S2.0 = S1 and ?w2.0 = w1
      and ?S3.0 = S1 and ?w3.0 = w1 and ?S4.0 = S1 and ?w4.0 = w1] open1 adopted
  have A: "State_destroy (fst (State_adopt 1 world1)) (snd (State_adopt 1 world1))
       = snd (State_adopt 1 world1)
     \<and> 1 \<notin> closed (State_destroy (fst (State_adopt 1 world1)) (snd (State_adopt 1 world1)))"
    by simp
  from destructor_closes_iff_created [where S = S1 and w = w1 and lua = 1 and ?w0.0 = world1
      and api = "demo_api 503" and p = 2 and a = 9 and libs = "[]"
      and ?S1.0 = S1 and ?w1.0 = w1 and ?S2.0 = S1 and ?w2.0 = w1
      and ?S3.0 = S1 and ?w3.0 = w1 and ?S4.0 = S1 and ?w4.0 = w1] c1
  have B: "2 \<in> closed (State_destroy S1 w1)"
    by simp
  from destructor_closes_iff_created [where S = S3 and w = w3 and lua = 1 and ?w0.0 = world1
      and api = "demo_api 503" and p = 2 and a = 9 and libs = "[(''m'', good_registrar)]"
      and ?S1.0 = S1 and ?w1.0 = w1 and ?S2.0 = S1 and ?w2.0 = w1
      and ?S3.0 = S3 and ?w3.0 = w3 and ?S4.0 = S1 and ?w4.0 = w1] c3
  have C: "2 \<in> closed (State_destroy S3 w3)"
    by simp
  obtain S2 w2 where c2: "State_new_alloc (demo_api 503) 9 2 world1 = Inr (S2, w2)"
    by (simp add: State_new_alloc_def Let_def openlibs_std_def demo_api_def demo_openlibs_def)
  obtain S4 w4 where
    c4: "State_libs_alloc (demo_api 503) [(''m'', good_registrar)] 9 2 world1 = Inr (S4, w4)"
    by (simp add: State_libs_alloc_def Let_def openlib_def demo_api_def demo_requiref_def
        good_registrar_def)
  from destructor_closes_iff_created [where S = S2 and w = w2 and lua = 1 and ?w0.0 = world1
      and api = "demo_api 503" and p = 2 and a = 9 and libs = "[(''m'', good_registrar)]"
      and ?S1.0 = S1 and ?w1.0 = w1 and ?S2.0 = S2 and ?w2.0 = w2
      and ?S3.0 = S3 and ?w3.0 = w3 and ?S4.0 = S4 and ?w4.0 = w4] c2
  have D: "2 \<in> closed (State_destroy S2 w2)"
    by simp
  from destructor_closes_iff_created [where S = S4 and w = w4 and lua = 1 and ?w0.0 = world1
      and api = "demo_api 503" and p = 2 and a = 9 and libs = "[(''m'', good_registrar)]"
      and ?S1.0 = S1 and ?w1.0 = w1 and ?S2.0 = S2 and ?w2.0 = w2
      and ?S3.0 = S3 and ?w3.0 = w3 and ?S4.0 = S4 and ?w4.0 = w4] c4
  have E: "2 \<in> closed (State_destroy S4 w4)"
    by simp
  from open1 adopted own A B C D E c1 c2 c3 c4 show ?thesis by simp
qed

text \<open>
  C5. \<open>init()\<close>, which every constructor runs, registers the default error function for
  the VM's identity exactly when no handler is registered for it: with none registered
  the default is there afterwards, a registered handler stays, and the entries of other
  VMs are untouched. The same holds across each of the five constructors. The default
  error function writes the message and a newline to the standard error stream, whatever
  the status.
\<close>

theorem default_handler_installed_iff_absent:
  "(handlers w (state_ptr S) = None \<longrightarrow> handlers (init S w) (state_ptr S) = Some StdErrorOut)
   \<and> (handlers w (state_ptr S) = Some h \<longrightarrow> handlers (init S w) (state_ptr S) = Some h)
   \<and> (q \<noteq> state_ptr S \<longrightarrow> handlers (init S w) q = handlers w q)
   \<and> handlers (snd (State_adopt p w)) =
        (if handlers w p = None then (handlers w)(p \<mapsto> StdErrorOut) else handlers w)
   \<and> (State_new api p w = Inr (S1, w1) \<longrightarrow> handlers w1 =
        (if handlers w p = None then (handlers w)(p \<mapsto> StdErrorOut) else handlers w))
   \<and> (State_new_alloc api a p w = Inr (S2, w2) \<longrightarrow> handlers w2 =
        (if handlers w p = None then (handlers w)(p \<mapsto> StdErrorOut) else handlers w))
   \<and> (State_libs api libs p w = Inr (S3, w3) \<longrightarrow> handlers w3 =
        (if handlers w p = None then (handlers w)(p \<mapsto> StdErrorOut) else handlers w))
   \<and> (State_libs_alloc api libs a p w = Inr (S4, w4) \<longrightarrow> handlers w4 =
        (if handlers w p = None then (handlers w)(p \<mapsto> StdErrorOut) else handlers w))
   \<and> call_errorfunction StdErrorOut status message w = w\<lparr>cerr := cerr w @ message @ [CHR 0x0A]\<rparr>
   \<and> stderror_out status message out = out @ message @ [CHR 0x0A]"
proof -
  have i: "(handlers w (state_ptr S) = None \<longrightarrow> handlers (init S w) (state_ptr S) = Some StdErrorOut)
     \<and> (handlers w (state_ptr S) = Some h \<longrightarrow> handlers (init S w) (state_ptr S) = Some h)
     \<and> (q \<noteq> state_ptr S \<longrightarrow> handlers (init S w) q = handlers w q)"
    by (simp add: init_eq)
  have ad: "handlers (snd (State_adopt p w)) =
        (if handlers w p = None then (handlers w)(p \<mapsto> StdErrorOut) else handlers w)"
    by (simp add: State_adopt_eq)
  have out: "call_errorfunction StdErrorOut status message w = w\<lparr>cerr := cerr w @ message @ [CHR 0x0A]\<rparr>
     \<and> stderror_out status message out = out @ message @ [CHR 0x0A]"
    by (simp add: call_errorfunction_def stderror_out_def)
  from i ad out State_new_done [of api p w S1 w1] State_new_alloc_done [of api a p w S2 w2]
    State_libs_done [of api libs p w S3 w3] State_libs_alloc_done [of api libs a p w S4 w4]
  show ?thesis by blast
qed

text \<open>
  On the example process: no handler for VM 1 in \<open>world1\<close>, a user function for VM 1 in
  \<open>world2\<close>; adoption of VM 1 in each, a fresh VM 2 next to VM 1, and the default error
  function called with a message.
\<close>

theorem default_handler_installed_iff_absent_witness:
  "handlers world1 1 = None
   \<and> handlers (init demo_State world1) 1 = Some StdErrorOut
   \<and> handlers world2 1 = Some (UserFunction 7)
   \<and> handlers (init demo_State world2) 1 = Some (UserFunction 7)
   \<and> handlers (init demo_State world2) 2 = None
   \<and> handlers (snd (State_adopt 1 world2)) 1 = Some (UserFunction 7)
   \<and> (\<exists>S1 w1. State_new (demo_api 503) 2 world2 = Inr (S1, w1)
          \<and> handlers w1 2 = Some StdErrorOut \<and> handlers w1 1 = Some (UserFunction 7))
   \<and> (\<exists>S2 w2. State_new_alloc (demo_api 503) 9 2 world2 = Inr (S2, w2)
          \<and> handlers w2 2 = Some StdErrorOut \<and> handlers w2 1 = Some (UserFunction 7))
   \<and> (\<exists>S3 w3. State_libs (demo_api 503) [(''m'', good_registrar)] 2 world2 = Inr (S3, w3)
          \<and> handlers w3 2 = Some StdErrorOut \<and> handlers w3 1 = Some (UserFunction 7))
   \<and> (\<exists>S4 w4. State_libs_alloc (demo_api 503) [(''m'', good_registrar)] 9 2 world2 = Inr (S4, w4)
          \<and> handlers w4 2 = Some StdErrorOut \<and> handlers w4 1 = Some (UserFunction 7))
   \<and> cerr (call_errorfunction StdErrorOut 2 ''boom'' world1) = ''boom'' @ [CHR 0x0A]"
proof -
  note ev = world2_def world1_def world0_def registerHandler_def set_vm_def demo_State_def
  have pre: "handlers world1 (state_ptr demo_State) = None"
    "handlers world2 (state_ptr demo_State) = Some (UserFunction 7)"
    "handlers world2 2 = None" "2 \<noteq> state_ptr demo_State" "state_ptr demo_State = 1"
    "cerr world1 = []"
    by (simp_all add: ev)
  obtain S1 w1 where c1: "State_new (demo_api 503) 2 world2 = Inr (S1, w1)"
    by (simp add: State_new_def Let_def openlibs_std_def demo_api_def demo_openlibs_def)
  obtain S2 w2 where c2: "State_new_alloc (demo_api 503) 9 2 world2 = Inr (S2, w2)"
    by (simp add: State_new_alloc_def Let_def openlibs_std_def demo_api_def demo_openlibs_def)
  obtain S3 w3 where
    c3: "State_libs (demo_api 503) [(''m'', good_registrar)] 2 world2 = Inr (S3, w3)"
    by (simp add: State_libs_def Let_def openlib_def demo_api_def demo_requiref_def
        good_registrar_def)
  obtain S4 w4 where
    c4: "State_libs_alloc (demo_api 503) [(''m'', good_registrar)] 9 2 world2 = Inr (S4, w4)"
    by (simp add: State_libs_alloc_def Let_def openlib_def demo_api_def demo_requiref_def
        good_registrar_def)
  from default_handler_installed_iff_absent [where S = demo_State and w = world1
      and h = "UserFunction 7" and q = 2 and p = 1 and api = "demo_api 503" and a = 9
      and libs = "[]" and ?S1.0 = S1 and ?w1.0 = w1 and ?S2.0 = S1 and ?w2.0 = w1
      and ?S3.0 = S1 and ?w3.0 = w1 and ?S4.0 = S1 and ?w4.0 = w1
      and status = 2 and message = "''boom''" and out = "[]"] pre
  have A: "handlers (init demo_State world1) 1 = Some StdErrorOut
      \<and> cerr (call_errorfunction StdErrorOut 2 ''boom'' world1) = ''boom'' @ [CHR 0x0A]"
    by simp
  from default_handler_installed_iff_absent [where S = demo_State and w = world2
      and h = "UserFunction 7" and q = 2 and p = 1 and api = "demo_api 503" and a = 9
      and libs = "[]" and ?S1.0 = S1 and ?w1.0 = w1 and ?S2.0 = S1 and ?w2.0 = w1
      and ?S3.0 = S1 and ?w3.0 = w1 and ?S4.0 = S1 and ?w4.0 = w1
      and status = 2 and message = "''boom''" and out = "[]"] pre
  have B: "handlers (init demo_State world2) 1 = Some (UserFunction 7)
      \<and> handlers (init demo_State world2) 2 = None
      \<and> handlers (snd (State_adopt 1 world2)) 1 = Some (UserFunction 7)"
    by simp
  from default_handler_installed_iff_absent [where S = demo_State and w = world2
      and h = "UserFunction 7" and q = 2 and p = 2 and api = "demo_api 503" and a = 9
      and libs = "[(''m'', good_registrar)]" and ?S1.0 = S1 and ?w1.0 = w1 and ?S2.0 = S2
      and ?w2.0 = w2 and ?S3.0 = S3 and ?w3.0 = w3 and ?S4.0 = S4 and ?w4.0 = w4
      and status = 2 and message = "''boom''" and out = "[]"] pre c1 c2 c3 c4
  have C: "handlers w1 2 = Some StdErrorOut \<and> handlers w1 1 = Some (UserFunction 7)
      \<and> handlers w2 2 = Some StdErrorOut \<and> handlers w2 1 = Some (UserFunction 7)
      \<and> handlers w3 2 = Some StdErrorOut \<and> handlers w3 1 = Some (UserFunction 7)
      \<and> handlers w4 2 = Some StdErrorOut \<and> handlers w4 1 = Some (UserFunction 7)"
    by simp
  from pre A B C c1 c2 c3 c4 show ?thesis by simp
qed

section \<open>The allocation callback\<close>

text \<open>
  C6, as amended. The callback has four cases and no other: with null user data it is
  the C library's \<open>realloc\<close> on the pointer and the new size; with an allocator and a
  new size of 0 it deallocates the block, passing the old size, and returns the null
  pointer; with a non-null pointer and a non-zero new size it is the allocator's
  \<open>reallocate\<close>; with the null pointer and a non-zero new size it is the allocator's
  \<open>allocate\<close>. The callback throws nothing of its own and catches nothing: it raises
  exactly when the one member function it calls raises. So it never raises with null
  user data or with \<open>DefaultAllocator\<close>, whose members are \<open>malloc\<close>, \<open>realloc\<close>
  and \<open>free\<close> (the size is dropped) and which signals failure by the null pointer
  alone.
\<close>

theorem AllocatorFunction_cases:
  "AllocatorFunction std None ptr osize nsize h = Inr (std_realloc std ptr nsize h)
   \<and> (nsize = 0 \<longrightarrow>
        AllocatorFunction std (Some al) ptr osize nsize h =
          (case deallocate al ptr osize h of Inl e \<Rightarrow> Inl e | Inr h1 \<Rightarrow> Inr (0, h1)))
   \<and> (nsize \<noteq> 0 \<and> ptr \<noteq> 0 \<longrightarrow>
        AllocatorFunction std (Some al) ptr osize nsize h = reallocate al ptr nsize h)
   \<and> (nsize \<noteq> 0 \<and> ptr = 0 \<longrightarrow>
        AllocatorFunction std (Some al) ptr osize nsize h = allocate al nsize h)
   \<and> (isl (AllocatorFunction std (Some al) ptr osize nsize h) \<longleftrightarrow>
        (if nsize = 0 then isl (deallocate al ptr osize h)
         else if ptr \<noteq> 0 then isl (reallocate al ptr nsize h)
         else isl (allocate al nsize h)))
   \<and> \<not> isl (AllocatorFunction std None ptr osize nsize h)
   \<and> \<not> isl (AllocatorFunction std (Some (DefaultAllocator std)) ptr osize nsize h)
   \<and> (nsize = 0 \<longrightarrow>
        AllocatorFunction std (Some (DefaultAllocator std)) ptr osize nsize h
          = Inr (0, std_free std ptr h))
   \<and> (nsize \<noteq> 0 \<and> ptr \<noteq> 0 \<longrightarrow>
        AllocatorFunction std (Some (DefaultAllocator std)) ptr osize nsize h
          = Inr (std_realloc std ptr nsize h))
   \<and> (nsize \<noteq> 0 \<and> ptr = 0 \<longrightarrow>
        AllocatorFunction std (Some (DefaultAllocator std)) ptr osize nsize h
          = Inr (std_malloc std nsize h))"
  by (simp add: AllocatorFunction_def DefaultAllocator_def split: sum.splits)

text \<open>
  C6 as stated fails on the last clause: an allocator that throws where \<open>malloc\<close>
  returns null makes the callback raise. A request of 100 bytes on the empty example
  heap of 64 raises \<open>bad_alloc\<close> through the callback; with \<open>DefaultAllocator\<close> the
  same call returns the null pointer.
\<close>

theorem AllocatorFunction_raises_with_throwing_allocator:
  "AllocatorFunction demo_std (Some NewAllocator) 0 0 100 [] = Inl bad_alloc
   \<and> AllocatorFunction demo_std (Some (DefaultAllocator demo_std)) 0 0 100 [] = Inr (0, [])"
  by (simp add: AllocatorFunction_def NewAllocator_def DefaultAllocator_def demo_std_def
      demo_malloc_def)

text \<open>
  The amended statement on the example heap, through \<open>DefaultAllocator\<close>: a fresh block
  of 16 bytes, its growth to 32, its release, two requests that do not fit (null, heap
  unchanged), and the path with null user data; through the throwing allocator: a
  request that fits returns, one that does not raises, in \<open>allocate\<close> and in
  \<open>reallocate\<close>.
\<close>

theorem AllocatorFunction_cases_witness:
  "AllocatorFunction demo_std (Some (DefaultAllocator demo_std)) 0 0 16 [] = Inr (1, [(1, 16)])
   \<and> AllocatorFunction demo_std (Some (DefaultAllocator demo_std)) 1 16 32 [(1, 16)] = Inr (1, [(1, 32)])
   \<and> AllocatorFunction demo_std (Some (DefaultAllocator demo_std)) 1 32 0 [(1, 32)] = Inr (0, [])
   \<and> AllocatorFunction demo_std (Some (DefaultAllocator demo_std)) 0 0 100 [(1, 32)] = Inr (0, [(1, 32)])
   \<and> AllocatorFunction demo_std (Some (DefaultAllocator demo_std)) 1 32 100 [(1, 32)] = Inr (0, [(1, 32)])
   \<and> AllocatorFunction demo_std None 1 32 48 [(1, 32)] = Inr (1, [(1, 48)])
   \<and> AllocatorFunction demo_std (Some NewAllocator) 0 0 16 [] = Inr (1, [(1, 16)])
   \<and> AllocatorFunction demo_std (Some NewAllocator) 1 16 0 [(1, 16)] = Inr (0, [])
   \<and> isl (AllocatorFunction demo_std (Some NewAllocator) 0 0 100 [(1, 32)])
   \<and> isl (AllocatorFunction demo_std (Some NewAllocator) 1 32 100 [(1, 32)])"
proof -
  note ev = demo_std_def demo_malloc_def demo_realloc_def demo_free_def DefaultAllocator_def
    NewAllocator_def Let_def
  let ?al = "DefaultAllocator demo_std"
  from AllocatorFunction_cases [where std = demo_std and al = ?al and ptr = 0 and osize = 0
      and nsize = 16 and h = "[]"]
  have A: "AllocatorFunction demo_std (Some ?al) 0 0 16 [] = Inr (std_malloc demo_std 16 [])"
    by (simp add: DefaultAllocator_def)
  from AllocatorFunction_cases [where std = demo_std and al = ?al and ptr = 1 and osize = 16
      and nsize = 32 and h = "[(1, 16)]"]
  have B: "AllocatorFunction demo_std (Some ?al) 1 16 32 [(1, 16)] = Inr (std_realloc demo_std 1 32 [(1, 16)])"
    by (simp add: DefaultAllocator_def)
  from AllocatorFunction_cases [where std = demo_std and al = ?al and ptr = 1 and osize = 32
      and nsize = 0 and h = "[(1, 32)]"]
  have C: "AllocatorFunction demo_std (Some ?al) 1 32 0 [(1, 32)] = Inr (0, std_free demo_std 1 [(1, 32)])"
    by (simp add: DefaultAllocator_def)
  from AllocatorFunction_cases [where std = demo_std and al = ?al and ptr = 0 and osize = 0
      and nsize = 100 and h = "[(1, 32)]"]
  have D: "AllocatorFunction demo_std (Some ?al) 0 0 100 [(1, 32)] = Inr (std_malloc demo_std 100 [(1, 32)])"
    by (simp add: DefaultAllocator_def)
  from AllocatorFunction_cases [where std = demo_std and al = ?al and ptr = 1 and osize = 32
      and nsize = 100 and h = "[(1, 32)]"]
  have E: "AllocatorFunction demo_std (Some ?al) 1 32 100 [(1, 32)] = Inr (std_realloc demo_std 1 100 [(1, 32)])"
    by (simp add: DefaultAllocator_def)
  from AllocatorFunction_cases [where std = demo_std and al = ?al and ptr = 1 and osize = 32
      and nsize = 48 and h = "[(1, 32)]"]
  have F: "AllocatorFunction demo_std None 1 32 48 [(1, 32)] = Inr (std_realloc demo_std 1 48 [(1, 32)])"
    by blast
  from AllocatorFunction_cases [where std = demo_std and al = NewAllocator and ptr = 0
      and osize = 0 and nsize = 16 and h = "[]"]
  have G: "AllocatorFunction demo_std (Some NewAllocator) 0 0 16 [] = allocate NewAllocator 16 []"
    by simp
  from AllocatorFunction_cases [where std = demo_std and al = NewAllocator and ptr = 1
      and osize = 16 and nsize = 0 and h = "[(1, 16)]"]
  have H: "AllocatorFunction demo_std (Some NewAllocator) 1 16 0 [(1, 16)] =
      (case deallocate NewAllocator 1 16 [(1, 16)] of Inl e \<Rightarrow> Inl e | Inr h1 \<Rightarrow> Inr (0, h1))"
    by simp
  from AllocatorFunction_cases [where std = demo_std and al = NewAllocator and ptr = 0
      and osize = 0 and nsize = 100 and h = "[(1, 32)]"]
  have I: "isl (AllocatorFunction demo_std (Some NewAllocator) 0 0 100 [(1, 32)])
      = isl (allocate NewAllocator 100 [(1, 32)])"
    by simp
  from AllocatorFunction_cases [where std = demo_std and al = NewAllocator and ptr = 1
      and osize = 32 and nsize = 100 and h = "[(1, 32)]"]
  have J: "isl (AllocatorFunction demo_std (Some NewAllocator) 1 32 100 [(1, 32)])
      = isl (reallocate NewAllocator 1 100 [(1, 32)])"
    by simp
  from A B C D E F G H I J show ?thesis by (simp add: ev)
qed

section \<open>The environment of a chunk\<close>

text \<open>
  What the shared block does to the stack the compiler left. On a closure with an upvalue
  1, built for Lua 5.2 or later, the table becomes that upvalue; built for an older
  library it becomes the closure's environment, upvalues or not. On a closure without
  upvalues, built for Lua 5.2 or later, \<open>lua_setupvalue\<close> finds no upvalue 1, pops
  nothing and says so in its result, which the block does not read: the table stays on
  the top, above the closure.
\<close>

lemma index2pos_below_top:
  "stack L = below @ [f, v] \<Longrightarrow> index2pos (-2) L = Some (length below)"
  by (simp add: index2pos_def lua_gettop_def Let_def)

lemma register_ENV_upvalue:
  assumes "502 \<le> LUA_VERSION_NUM api" and "stack L = below @ [LClosure c (u # ups) fenv]"
  shows "stack (register_ENV api (TableRef t) L) = below @ [LClosure c (LTable t # ups) fenv]"
proof -
  let ?L1 = "LuaTable_push (TableRef t) L"
  have st: "stack ?L1 = below @ [LClosure c (u # ups) fenv, LTable t]"
    using assms(2) by (simp add: LuaTable_push_def lua_push_def)
  from index2pos_below_top [OF st] st
  have "stack (lua_setupvalue (-2) 1 ?L1) = below @ [LClosure c (LTable t # ups) fenv]"
    by (simp add: lua_setupvalue_def butlast_append)
  with assms(1) show ?thesis
    by (simp add: register_ENV_def isNilref_def Let_def)
qed

lemma register_ENV_fenv:
  assumes "LUA_VERSION_NUM api < 502" and "stack L = below @ [LClosure c ups fenv]"
  shows "stack (register_ENV api (TableRef t) L) = below @ [LClosure c ups (LTable t)]"
proof -
  let ?L1 = "LuaTable_push (TableRef t) L"
  have st: "stack ?L1 = below @ [LClosure c ups fenv, LTable t]"
    using assms(2) by (simp add: LuaTable_push_def lua_push_def)
  from index2pos_below_top [OF st] st
  have "stack (lua_setfenv (-2) ?L1) = below @ [LClosure c ups (LTable t)]"
    by (simp add: lua_setfenv_def butlast_append)
  with assms(1) show ?thesis
    by (simp add: register_ENV_def isNilref_def Let_def)
qed

lemma register_ENV_no_upvalue:
  assumes "502 \<le> LUA_VERSION_NUM api" and "stack L = below @ [LClosure c [] fenv]"
  shows "stack (register_ENV api (TableRef t) L) = below @ [LClosure c [] fenv, LTable t]"
proof -
  let ?L1 = "LuaTable_push (TableRef t) L"
  have st: "stack ?L1 = below @ [LClosure c [] fenv, LTable t]"
    using assms(2) by (simp add: LuaTable_push_def lua_push_def)
  from index2pos_below_top [OF st] st
  have "lua_setupvalue (-2) 1 ?L1 = ?L1"
    by (simp add: lua_setupvalue_def)
  with assms(1) st show ?thesis
    by (simp add: register_ENV_def isNilref_def Let_def)
qed

text \<open>
  C7: the code at the failing input. The file \<open>one.luac\<close> is a precompiled chunk of a
  function without upvalues, and a user error function is registered for VM 1. Run with
  the nil reference the chunk returns and \<open>dofile\<close> is true. Run with the table 4 in a
  build for Lua 5.3, the table is not bound: after the shared block it lies on the stack
  above the chunk, the protected call calls the table, the error function receives
  status 2 and \<open>dofile\<close> is false. The same call in a build for Lua 5.1, where
  \<open>lua_setfenv\<close> always pops the table, is true, and so is the call on a chunk compiled
  from source.
\<close>

theorem dofile_env_not_bound_without_upvalue:
  "stack (snd (luaL_loadfile (demo_api 503) ''one.luac'' (vms world2 1)))
     = [LNumber 10, LNumber 20, LClosure 0 [] (LTable 0)]
   \<and> stack (register_ENV (demo_api 503) (TableRef 4)
              (snd (luaL_loadfile (demo_api 503) ''one.luac'' (vms world2 1))))
     = [LNumber 10, LNumber 20, LClosure 0 [] (LTable 0), LTable 4]
   \<and> dofile (demo_api 503) ''one.luac'' (TableRef 4) demo_State world2
     = (False, world2\<lparr>delivered := [(7, 2, ''attempt to call a table value'')]\<rparr>)
   \<and> dofile (demo_api 503) ''one.luac'' NilRef demo_State world2 = (True, world2)
   \<and> dofile (demo_api 501) ''one.luac'' (TableRef 4) demo_State world2 = (True, world2)
   \<and> dofile (demo_api 503) ''ok.lua'' (TableRef 4) demo_State world2 = (True, world2)"
proof -
  note ev = demo_api_def demo_State_def world2_def world1_def world0_def registerHandler_def
    set_vm_def new_lua_State_def demo_loadfile_def demo_pcall_def lua_push_def
    LuaTable_push_def register_ENV_def isNilref_def lua_setupvalue_def lua_setfenv_def
    index2pos_def lua_gettop_def lua_settop_def lua_pop_def lua_tostring_top_def
    LUA_MULTRET_def dofile_def ScopedSavedStack_leave_def ScopedSavedStack_enter_def
    ErrorHandler_handle_def getHandler_def call_errorfunction_def on_vm_def Let_def
  have loaded_chunk: "stack (snd (luaL_loadfile (demo_api 503) ''one.luac'' (vms world2 1)))
      = [LNumber 10, LNumber 20] @ [LClosure 0 [] (LTable 0)]"
    by (simp add: ev)
  have version: "502 \<le> LUA_VERSION_NUM (demo_api 503)"
    by (simp add: demo_api_def)
  from register_ENV_no_upvalue [OF version loaded_chunk, of 4]
  have unbound: "stack (register_ENV (demo_api 503) (TableRef 4)
        (snd (luaL_loadfile (demo_api 503) ''one.luac'' (vms world2 1))))
      = [LNumber 10, LNumber 20, LClosure 0 [] (LTable 0), LTable 4]"
    by simp
  have with_table: "dofile (demo_api 503) ''one.luac'' (TableRef 4) demo_State world2
      = (False, world2\<lparr>delivered := [(7, 2, ''attempt to call a table value'')]\<rparr>)"
    by (simp add: ev fun_eq_iff)
  have with_nil: "dofile (demo_api 503) ''one.luac'' NilRef demo_State world2 = (True, world2)"
    by (simp add: ev fun_eq_iff)
  have older: "dofile (demo_api 501) ''one.luac'' (TableRef 4) demo_State world2 = (True, world2)"
    by (simp add: ev fun_eq_iff)
  have from_source: "dofile (demo_api 503) ''ok.lua'' (TableRef 4) demo_State world2 = (True, world2)"
    by (simp add: ev fun_eq_iff)
  from loaded_chunk unbound with_table with_nil older from_source show ?thesis by simp
qed

section \<open>The collector's switch\<close>

text \<open>
  C8, as amended. In a build against Lua 5.2 or later \<open>isenabled\<close> (and \<open>isrunning\<close>)
  is the library's query, \<open>lua_gc\<close> with \<open>LUA_GCISRUNNING\<close>, compared with 0. In a
  build against an older library the two members do not exist, and nothing stands in
  for them: \<open>GCType\<close> holds the VM's address and nothing else, and \<open>enable\<close> and
  \<open>disable\<close> are the library's \<open>LUA_GCRESTART\<close> and \<open>LUA_GCSTOP\<close> in every build,
  recording nothing in the wrapper.
\<close>

theorem isenabled_only_where_library_answers:
  "(502 \<le> LUA_VERSION_NUM api \<longrightarrow>
      isenabled api g w = Some (fst (gc_call api g LUA_GCISRUNNING 0 w) \<noteq> 0,
                                snd (gc_call api g LUA_GCISRUNNING 0 w)))
   \<and> (LUA_VERSION_NUM api < 502 \<longrightarrow> isenabled api g w = None)
   \<and> isrunning api g w = isenabled api g w
   \<and> enable api g w = snd (gc_call api g LUA_GCRESTART 0 w)
   \<and> disable api g w = snd (gc_call api g LUA_GCSTOP 0 w)
   \<and> restart api g w = enable api g w
   \<and> stop api g w = disable api g w
   \<and> g = \<lparr>gc_state = gc_state g\<rparr>
   \<and> gc S = \<lparr>gc_state = state_ptr S\<rparr>"
  by (simp add: isenabled_def isrunning_def enable_def disable_def restart_def stop_def gc_def
      case_prod_unfold Let_def)

text \<open>
  C8 as stated fails in a build against Lua 5.1: after \<open>disable\<close> the collector of VM 1
  is stopped, and the wrapper has no answer to give.
\<close>

theorem isenabled_absent_before_502:
  "gcrunning (vms (disable (demo_api 501) (gc demo_State) world1) 1) = False
   \<and> isenabled (demo_api 501) (gc demo_State) (disable (demo_api 501) (gc demo_State) world1) = None
   \<and> isrunning (demo_api 501) (gc demo_State) (disable (demo_api 501) (gc demo_State) world1) = None"
  by (simp add: isenabled_def isrunning_def disable_def gc_call_def gc_def demo_api_def
      demo_gc_def demo_State_def set_vm_def LUA_GCSTOP_def G_def set_G_def Let_def)

text \<open>
  The amended statement on the example library: built for Lua 5.3 the query answers
  false after \<open>disable\<close> and true after \<open>enable\<close>, from the VM; built for Lua 5.1
  there is no answer.
\<close>

theorem isenabled_only_where_library_answers_witness:
  "(502::int) \<le> LUA_VERSION_NUM (demo_api 503)
   \<and> LUA_VERSION_NUM (demo_api 501) < (502::int)
   \<and> (\<exists>w1. isenabled (demo_api 503) (gc demo_State) (disable (demo_api 503) (gc demo_State) world1)
          = Some (False, w1))
   \<and> (\<exists>w1. isenabled (demo_api 503) (gc demo_State) (enable (demo_api 503) (gc demo_State) world1)
          = Some (True, w1))
   \<and> isenabled (demo_api 501) (gc demo_State) (enable (demo_api 501) (gc demo_State) world1) = None"
proof -
  note ev = gc_call_def gc_def demo_api_def demo_gc_def demo_State_def set_vm_def
    LUA_GCSTOP_def LUA_GCRESTART_def LUA_GCISRUNNING_def G_def set_G_def Let_def
  let ?g = "gc demo_State"
  have v: "(502::int) \<le> LUA_VERSION_NUM (demo_api 503)" "LUA_VERSION_NUM (demo_api 501) < (502::int)"
    by (simp_all add: demo_api_def)
  have off: "fst (gc_call (demo_api 503) ?g LUA_GCISRUNNING 0 (disable (demo_api 503) ?g world1)) = 0"
    and on: "fst (gc_call (demo_api 503) ?g LUA_GCISRUNNING 0 (enable (demo_api 503) ?g world1)) = 1"
    by (simp_all add: disable_def enable_def ev)
  from isenabled_only_where_library_answers [where api = "demo_api 503" and g = ?g
      and w = "disable (demo_api 503) ?g world1" and S = demo_State] v
  have "isenabled (demo_api 503) ?g (disable (demo_api 503) ?g world1)
      = Some (fst (gc_call (demo_api 503) ?g LUA_GCISRUNNING 0 (disable (demo_api 503) ?g world1)) \<noteq> 0,
              snd (gc_call (demo_api 503) ?g LUA_GCISRUNNING 0 (disable (demo_api 503) ?g world1)))"
    by blast
  with off
  have A: "\<exists>w1. isenabled (demo_api 503) ?g (disable (demo_api 503) ?g world1) = Some (False, w1)"
    by simp
  from isenabled_only_where_library_answers [where api = "demo_api 503" and g = ?g
      and w = "enable (demo_api 503) ?g world1" and S = demo_State] v
  have "isenabled (demo_api 503) ?g (enable (demo_api 503) ?g world1)
      = Some (fst (gc_call (demo_api 503) ?g LUA_GCISRUNNING 0 (enable (demo_api 503) ?g world1)) \<noteq> 0,
              snd (gc_call (demo_api 503) ?g LUA_GCISRUNNING 0 (enable (demo_api 503) ?g world1)))"
    by blast
  with on
  have B: "\<exists>w1. isenabled (demo_api 503) ?g (enable (demo_api 503) ?g world1) = Some (True, w1)"
    by simp
  from isenabled_only_where_library_answers [where api = "demo_api 501" and g = ?g
      and w = "enable (demo_api 501) ?g world1" and S = demo_State] v
  have C: "isenabled (demo_api 501) ?g (enable (demo_api 501) ?g world1) = None"
    by blast
  from v A B C show ?thesis by simp
qed

section \<open>Loading a list of libraries\<close>

lemma openlibs_append:
  "openlibs api (xs @ ys) S w =
     (case openlibs api xs S w of
        Inl e \<Rightarrow> Inl e
      | Inr w1 \<Rightarrow> openlibs api ys S w1)"
  by (induction xs arbitrary: w) (auto split: sum.splits)

lemma openlibs_single: "openlibs api [lib] S w = openlib api lib S w"
  by (simp split: sum.splits)

text \<open>
  C9, as amended. \<open>openlibs(libs)\<close> calls \<open>openlib\<close> on the entries in list order, each
  on the process the one before left, and has no exit of its own: when every entry's
  load returns, every entry has been loaded. \<open>openlib\<close> calls \<open>luaL_requiref\<close> outside
  any protected call, so an error raised while an entry loads leaves \<open>openlibs\<close> at that
  entry: the outcome is that error, whatever entries follow, and none of them is
  attempted.
\<close>

theorem openlibs_in_order_until_error:
  "openlibs api [] S w = Inr w
   \<and> openlibs api (xs @ ys) S w =
       (case openlibs api xs S w of
          Inl e \<Rightarrow> Inl e
        | Inr w1 \<Rightarrow> openlibs api ys S w1)
   \<and> (openlibs api xs S w = Inr w1 \<and> openlib api lib S w1 = Inr w2 \<longrightarrow>
        openlibs api (xs @ lib # ys) S w = openlibs api ys S w2)
   \<and> (openlibs api xs S w = Inr w1 \<and> openlib api lib S w1 = Inl e \<longrightarrow>
        openlibs api (xs @ lib # ys) S w = Inl e)
   \<and> (luaL_requiref api (fst lib) (snd lib) True (vms w (state_ptr S)) = Inl (msg, L) \<longrightarrow>
        openlibs api (lib # ys) S w = Inl (msg, set_vm (state_ptr S) L w))"
  by (simp add: openlibs_append openlib_def Let_def)

text \<open>
  C9 as stated fails when an entry's registrar raises: of the two entries \<open>a\<close> and \<open>b\<close>
  the first raises, the operation ends with that error in the process it started from,
  and \<open>b\<close>, which loads when it is given alone, has not been loaded.
\<close>

theorem openlibs_stops_at_failed_entry:
  "openlibs (demo_api 503) [(''a'', bad_registrar), (''b'', good_registrar)] demo_State world1
     = Inl (''boom'', world1)
   \<and> loaded (vms world1 1) = []
   \<and> (\<exists>w1. openlibs (demo_api 503) [(''b'', good_registrar)] demo_State world1 = Inr w1
          \<and> loaded (vms w1 1) = [''b''])"
  by (simp add: openlib_def Let_def demo_api_def demo_requiref_def bad_registrar_def
      good_registrar_def demo_State_def world1_def world0_def set_vm_def new_lua_State_def
      ScopedSavedStack_leave_def ScopedSavedStack_enter_def on_vm_def lua_settop_def
      lua_gettop_def lua_push_def)

text \<open>
  The amended statement on the example library: two entries that load are loaded in list
  order; with a raising entry between them the first is loaded, the error leaves the
  operation, and the entry after it makes no difference.
\<close>

theorem openlibs_in_order_until_error_witness:
  "(\<exists>w2. openlibs (demo_api 503) [(''a'', good_registrar), (''b'', good_registrar)] demo_State world1
          = Inr w2 \<and> loaded (vms w2 1) = [''a'', ''b''])
   \<and> (\<exists>w1. openlibs (demo_api 503)
            [(''a'', good_registrar), (''x'', bad_registrar), (''b'', good_registrar)] demo_State world1
          = Inl (''boom'', w1) \<and> loaded (vms w1 1) = [''a''])
   \<and> openlibs (demo_api 503)
        [(''a'', good_registrar), (''x'', bad_registrar), (''b'', good_registrar)] demo_State world1
      = openlibs (demo_api 503) [(''a'', good_registrar), (''x'', bad_registrar)] demo_State world1
   \<and> openlibs (demo_api 503) [(''x'', bad_registrar), (''b'', good_registrar)] demo_State world1
      = Inl (''boom'', world1)"
proof -
  let ?api = "demo_api 503"
  note ev = openlib_def Let_def demo_api_def demo_requiref_def bad_registrar_def
    good_registrar_def demo_State_def world1_def world0_def set_vm_def new_lua_State_def
    ScopedSavedStack_leave_def ScopedSavedStack_enter_def on_vm_def lua_settop_def
    lua_gettop_def lua_push_def
  obtain w1 where a: "openlibs ?api [(''a'', good_registrar)] demo_State world1 = Inr w1"
    and la: "loaded (vms w1 1) = [''a'']"
    by (simp add: ev)
  obtain w2 where b: "openlib ?api (''b'', good_registrar) demo_State w1 = Inr w2"
    and lb: "loaded (vms w2 1) = [''a'', ''b'']"
    using a la by (auto simp: ev)
  obtain w3 where x: "openlib ?api (''x'', bad_registrar) demo_State w1 = Inl (''boom'', w3)"
    and lx: "loaded (vms w3 1) = [''a'']"
    using a la by (auto simp: ev)
  from openlibs_in_order_until_error [where api = ?api and S = demo_State and w = world1
      and xs = "[(''a'', good_registrar)]" and ?w1.0 = w1 and lib = "(''b'', good_registrar)"
      and ?w2.0 = w2 and ys = "[]" and e = "(''boom'', w3)" and msg = "''boom''"
      and L = new_lua_State] a b
  have A: "openlibs ?api [(''a'', good_registrar), (''b'', good_registrar)] demo_State world1 = Inr w2"
    by simp
  from openlibs_in_order_until_error [where api = ?api and S = demo_State and w = world1
      and xs = "[(''a'', good_registrar)]" and ?w1.0 = w1 and lib = "(''x'', bad_registrar)"
      and ?w2.0 = w2 and ys = "[(''b'', good_registrar)]" and e = "(''boom'', w3)"
      and msg = "''boom''" and L = new_lua_State] a x
  have B: "openlibs ?api [(''a'', good_registrar), (''x'', bad_registrar), (''b'', good_registrar)]
      demo_State world1 = Inl (''boom'', w3)"
    by simp
  from openlibs_in_order_until_error [where api = ?api and S = demo_State and w = world1
      and xs = "[(''a'', good_registrar)]" and ?w1.0 = w1 and lib = "(''x'', bad_registrar)"
      and ?w2.0 = w2 and ys = "[]" and e = "(''boom'', w3)"
      and msg = "''boom''" and L = new_lua_State] a x
  have C: "openlibs ?api [(''a'', good_registrar), (''x'', bad_registrar)] demo_State world1
      = Inl (''boom'', w3)"
    by simp
  have r: "luaL_requiref ?api (fst (''x'', bad_registrar)) (snd (''x'', bad_registrar)) True
      (vms world1 (state_ptr demo_State)) = Inl (''boom'', vms world1 1)"
    and same: "set_vm (state_ptr demo_State) (vms world1 1) world1 = world1"
    by (simp_all add: demo_api_def demo_requiref_def bad_registrar_def demo_State_def set_vm_def)
  from openlibs_in_order_until_error [where api = ?api and S = demo_State and w = world1
      and xs = "[]" and ?w1.0 = w1 and lib = "(''x'', bad_registrar)"
      and ?w2.0 = w2 and ys = "[(''b'', good_registrar)]" and e = "(''boom'', w3)"
      and msg = "''boom''" and L = "vms world1 1"] r
  have "openlibs ?api [(''x'', bad_registrar), (''b'', good_registrar)] demo_State world1
      = Inl (''boom'', set_vm (state_ptr demo_State) (vms world1 1) world1)"
    by blast
  with same
  have D: "openlibs ?api [(''x'', bad_registrar), (''b'', good_registrar)] demo_State world1
      = Inl (''boom'', world1)"
    by simp
  from A B C D lb lx show ?thesis by simp
qed

section \<open>The overloads on \<open>std::string\<close> and the call operators\<close>

lemma c_str_id: "CHR 0x00 \<notin> set s \<Longrightarrow> c_str s = s"
  by (auto simp: c_str_def takeWhile_eq_all_conv)

text \<open>
  C10. \<open>dostring\<close> and \<open>dofile\<close> on a \<open>std::string\<close> are \<open>dostring\<close> and \<open>dofile\<close> on
  its \<open>c_str()\<close>, with the same environment: same result, same process afterwards. The
  call operator on a \<open>std::string\<close> is \<open>dostring\<close> on its \<open>c_str()\<close> with the default
  environment, the nil reference, and the one on a C string is \<open>dostring\<close> with the
  default environment. A string with no NUL character is its own C string, so for such a
  string the two overloads, and the two call operators, coincide.
\<close>

theorem string_overloads_delegate:
  "dostring_string api str env S w = dostring api (c_str str) env S w
   \<and> dofile_string api path env S w = dofile api (c_str path) env S w
   \<and> call_string api str S w = dostring api (c_str str) NilRef S w
   \<and> call_string api str S w = dostring_string api str NilRef S w
   \<and> call_cstr api str S w = dostring api str NilRef S w
   \<and> isNilref NilRef
   \<and> (CHR 0x00 \<notin> set str \<longrightarrow>
        dostring_string api str env S w = dostring api str env S w
        \<and> call_string api str S w = call_cstr api str S w)
   \<and> (CHR 0x00 \<notin> set path \<longrightarrow> dofile_string api path env S w = dofile api path env S w)"
  by (simp add: dostring_string_def dofile_string_def call_string_def call_cstr_def isNilref_def
      c_str_id)

text \<open>
  On the example library: a script and a file name without NUL, run through both
  overloads.
\<close>

theorem string_overloads_delegate_witness:
  "CHR 0x00 \<notin> set ''return 1+1''
   \<and> CHR 0x00 \<notin> set ''ok.lua''
   \<and> dostring_string (demo_api 503) ''return 1+1'' NilRef demo_State world1
       = dostring (demo_api 503) ''return 1+1'' NilRef demo_State world1
   \<and> call_string (demo_api 503) ''return 1+1'' demo_State world1
       = call_cstr (demo_api 503) ''return 1+1'' demo_State world1
   \<and> dofile_string (demo_api 503) ''ok.lua'' (TableRef 4) demo_State world1
       = dofile (demo_api 503) ''ok.lua'' (TableRef 4) demo_State world1"
proof -
  have n: "CHR 0x00 \<notin> set ''return 1+1''" "CHR 0x00 \<notin> set ''ok.lua''"
    by simp_all
  from string_overloads_delegate [where api = "demo_api 503" and str = "''return 1+1''"
      and env = NilRef and S = demo_State and w = world1 and path = "''ok.lua''"] n
  have A: "dostring_string (demo_api 503) ''return 1+1'' NilRef demo_State world1
       = dostring (demo_api 503) ''return 1+1'' NilRef demo_State world1
     \<and> call_string (demo_api 503) ''return 1+1'' demo_State world1
       = call_cstr (demo_api 503) ''return 1+1'' demo_State world1"
    by blast
  from string_overloads_delegate [where api = "demo_api 503" and str = "''return 1+1''"
      and env = "TableRef 4" and S = demo_State and w = world1 and path = "''ok.lua''"] n
  have B: "dofile_string (demo_api 503) ''ok.lua'' (TableRef 4) demo_State world1
       = dofile (demo_api 503) ''ok.lua'' (TableRef 4) demo_State world1"
    by blast
  from n A B show ?thesis by blast
qed

end
